theory Spec2Isabelle
  imports Complex_Main
begin

section \<open>Numbers and errors\<close>

text \<open>
  The tax engine of \<^verbatim>\<open>app/services/tax_calculator.py\<close> computes on Python floats.
  Amounts and rates are modelled as exact reals: rounding, overflow and NaN of IEEE
  doubles are outside this development. The literal \<^verbatim>\<open>float('inf')\<close>, which closes
  both bracket tables and starts \<^verbatim>\<open>min_total_tax\<close>, is the value \<open>PosInf\<close>.
\<close>

datatype xfloat = Fin real | PosInf

text \<open>\<^verbatim>\<open>x < bound\<close> and \<^verbatim>\<open>min(x, threshold)\<close> against a bound that may be infinite.\<close>

fun lt_x :: "real \<Rightarrow> xfloat \<Rightarrow> bool" where
  "lt_x x (Fin t) = (x < t)"
| "lt_x x PosInf = True"

fun min_x :: "real \<Rightarrow> xfloat \<Rightarrow> real" where
  "min_x x (Fin t) = min x t"
| "min_x x PosInf = x"

text \<open>
  The only exception the engine can raise is Python's \<^verbatim>\<open>ZeroDivisionError\<close>, from a
  float division. \<open>InvalidInput\<close> is the error kind the specification names; no function
  of the source raises it.
\<close>

datatype py_error = ZeroDivisionError | InvalidInput

definition py_truediv :: "real \<Rightarrow> real \<Rightarrow> py_error + real" where
  "py_truediv a b = (if b = 0 then Inl ZeroDivisionError else Inr (a / b))"

section \<open>The rate table: \<^verbatim>\<open>FrenchTaxCalculator.__init__\<close>\<close>

record calculator =
  salary_employer :: real
  salary_employee :: real
  dividends_social :: real
  dividends_pfu :: real
  corporate_tax_rates :: "(xfloat \<times> real) list"
  income_tax_brackets :: "(xfloat \<times> real) list"
  vat_rates :: "(string \<times> real) list"
  smic_annual :: real
  pass_annual :: real

text \<open>\<^verbatim>\<open>settings.SMIC_HOURLY\<close> and \<^verbatim>\<open>settings.PASS_ANNUAL\<close> of \<^verbatim>\<open>app/core/config.py\<close>.\<close>

definition SMIC_HOURLY :: real where
  "SMIC_HOURLY = 11.52"

definition PASS_ANNUAL :: real where
  "PASS_ANNUAL = 43992"

definition FrenchTaxCalculator :: calculator where
  "FrenchTaxCalculator =
     \<lparr> salary_employer = 0.42,
       salary_employee = 0.22,
       dividends_social = 0.172,
       dividends_pfu = 0.128,
       corporate_tax_rates = [(Fin 42500, 0.15), (PosInf, 0.25)],
       income_tax_brackets =
         [(Fin 11294, 0), (Fin 28797, 0.11), (Fin 82341, 0.30), (Fin 177106, 0.41),
          (PosInf, 0.45)],
       vat_rates =
         [(''standard'', 0.20), (''intermediate'', 0.10), (''reduced'', 0.055),
          (''super_reduced'', 0.021)],
       smic_annual = SMIC_HOURLY * 35 * 52,
       pass_annual = PASS_ANNUAL \<rparr>"

section \<open>Result dictionaries\<close>

text \<open>
  Every dictionary the engine returns has a fixed set of string keys and is a record
  with one field per key. Keys that occur in several dictionaries carry a prefix. The one
  key that is not always written, \<^verbatim>\<open>'effective_rate'\<close> of the dividend dictionary, is an
  option: \<open>None\<close> when the dictionary has no such key.
\<close>

record salary_breakdown =
  gross_salary :: real
  employer_charges :: real
  employee_charges :: real
  total_social_charges :: real
  net_salary :: real
  total_cost_to_company :: real

record dividend_breakdown =
  div_dividends :: real
  social_charges :: real
  div_income_tax :: real
  total_tax :: real
  net_dividends :: real
  effective_rate :: "real option"

record vat_breakdown =
  vat_collected :: real
  vat_deductible :: real
  vat_to_pay :: real
  vat_rate :: real

record input_breakdown =
  in_gross_salary :: real
  in_dividends :: real
  in_revenue :: real
  in_expenses :: real

record corporate_breakdown =
  profit_before_tax :: real
  corporate_tax :: real
  profit_after_tax :: real
  available_for_dividends :: real

record income_tax_breakdown =
  taxable_salary :: real
  tax_on_salary :: real
  it_total :: real

record summary_breakdown =
  sum_total_social_charges :: real
  total_corporate_tax :: real
  total_income_tax :: real
  total_vat :: real
  total_taxes :: real
  net_income :: real
  effective_tax_rate :: real

record taxation_result =
  input :: input_breakdown
  salary :: salary_breakdown
  corporate :: corporate_breakdown
  dividends :: dividend_breakdown
  income_tax :: income_tax_breakdown
  vat :: vat_breakdown
  summary :: summary_breakdown

section \<open>The tax engine\<close>

definition calculate_social_charges_on_salary :: "calculator \<Rightarrow> real \<Rightarrow> salary_breakdown" where
  "calculate_social_charges_on_salary self gross =
     (let employer = gross * salary_employer self;
          employee = gross * salary_employee self;
          net = gross - employee;
          total_cost = gross + employer
      in \<lparr> gross_salary = gross,
           employer_charges = employer,
           employee_charges = employee,
           total_social_charges = employer + employee,
           net_salary = net,
           total_cost_to_company = total_cost \<rparr>)"

text \<open>
  The loop of \<^verbatim>\<open>calculate_corporate_tax\<close>: \<open>first\<close> is
  \<^verbatim>\<open>self.corporate_tax_rates[0][0]\<close>, \<open>profit\<close> the argument of the call, and the
  last two arguments are the loop variables \<^verbatim>\<open>tax\<close> and \<^verbatim>\<open>remaining_profit\<close>. The
  subtraction \<^verbatim>\<open>profit_before_tax - threshold\<close> is only evaluated under
  \<^verbatim>\<open>profit_before_tax > threshold\<close>, which is false for an infinite threshold.
\<close>

fun corporate_tax_loop ::
  "xfloat \<Rightarrow> real \<Rightarrow> (xfloat \<times> real) list \<Rightarrow> real \<Rightarrow> real \<Rightarrow> real" where
  "corporate_tax_loop first profit [] tax remaining = tax"
| "corporate_tax_loop first profit ((threshold, rate) # rest) tax remaining =
     (if remaining \<le> 0 then tax
      else
        let taxable_amount = min_x remaining threshold;
            tax' = tax + taxable_amount * rate;
            remaining' = remaining - taxable_amount;
            remaining'' =
              (if threshold = first
               then (case threshold of
                       Fin t \<Rightarrow> if profit > t then profit - t else 0
                     | PosInf \<Rightarrow> 0)
               else remaining')
        in corporate_tax_loop first profit rest tax' remaining'')"

definition calculate_corporate_tax :: "calculator \<Rightarrow> real \<Rightarrow> real" where
  "calculate_corporate_tax self profit =
     (if profit \<le> 0 then 0
      else case corporate_tax_rates self of
             [] \<Rightarrow> 0
           | (first, _) # _ \<Rightarrow>
               corporate_tax_loop first profit (corporate_tax_rates self) 0 profit)"

text \<open>
  The loop of \<^verbatim>\<open>calculate_income_tax\<close> over \<^verbatim>\<open>enumerate(self.income_tax_brackets)\<close>.
  \<open>prev\<close> is \<open>None\<close> at index 0 and the previous threshold afterwards; the previous
  threshold is finite, since the loop only goes on when the income exceeds it. Returning
  from the function models \<^verbatim>\<open>break\<close>.
\<close>

fun income_tax_loop :: "real \<Rightarrow> real option \<Rightarrow> (xfloat \<times> real) list \<Rightarrow> real \<Rightarrow> real" where
  "income_tax_loop income prev [] tax = tax"
| "income_tax_loop income None ((threshold, rate) # rest) tax =
     (case threshold of
        PosInf \<Rightarrow> tax + income * rate
      | Fin t \<Rightarrow>
          if income \<le> t then tax + income * rate
          else income_tax_loop income (Some t) rest (tax + t * rate))"
| "income_tax_loop income (Some prev_threshold) ((threshold, rate) # rest) tax =
     (case threshold of
        PosInf \<Rightarrow> tax + (income - prev_threshold) * rate
      | Fin t \<Rightarrow>
          if income \<le> t then tax + (income - prev_threshold) * rate
          else income_tax_loop income (Some t) rest (tax + (t - prev_threshold) * rate))"

definition calculate_income_tax :: "calculator \<Rightarrow> real \<Rightarrow> real \<Rightarrow> py_error + real" where
  "calculate_income_tax self taxable_income parts =
     (if taxable_income \<le> 0 then Inr 0
      else case py_truediv taxable_income parts of
             Inl err \<Rightarrow> Inl err
           | Inr income_per_part \<Rightarrow>
               Inr (income_tax_loop income_per_part None (income_tax_brackets self) 0 * parts))"

text \<open>
  \<^verbatim>\<open>calculate_dividends_taxation\<close>. The dictionary of the first branch has five keys
  and no \<^verbatim>\<open>'effective_rate'\<close>. In the second branch the guard of the conditional
  expression keeps the division from a zero divisor.
\<close>

definition calculate_dividends_taxation :: "calculator \<Rightarrow> real \<Rightarrow> py_error + dividend_breakdown" where
  "calculate_dividends_taxation self amount =
     (if amount \<le> 0 then
        Inr \<lparr> div_dividends = 0, social_charges = 0, div_income_tax = 0, total_tax = 0,
              net_dividends = 0, effective_rate = None \<rparr>
      else
        let social = amount * dividends_social self;
            flat_tax = amount * dividends_pfu self;
            total = social + flat_tax;
            net = amount - total
        in case (if amount > 0 then py_truediv total amount else Inr 0) of
             Inl err \<Rightarrow> Inl err
           | Inr rate \<Rightarrow>
               Inr \<lparr> div_dividends = amount, social_charges = social,
                     div_income_tax = flat_tax, total_tax = total, net_dividends = net,
                     effective_rate = Some rate \<rparr>)"

definition calculate_vat :: "calculator \<Rightarrow> real \<Rightarrow> real \<Rightarrow> real \<Rightarrow> vat_breakdown" where
  "calculate_vat self revenue expenses rate =
     (let collected = revenue * rate;
          deductible = expenses * rate;
          to_pay = max 0 (collected - deductible)
      in \<lparr> vat_collected = collected, vat_deductible = deductible, vat_to_pay = to_pay,
           vat_rate = rate \<rparr>)"

text \<open>The default of the parameter \<^verbatim>\<open>vat_rate\<close> of \<^verbatim>\<open>calculate_vat\<close> and of \<^verbatim>\<open>calculate_complete_taxation\<close>.\<close>

definition default_vat_rate :: real where
  "default_vat_rate = 0.20"

text \<open>
  \<^verbatim>\<open>calculate_complete_taxation\<close>, in the order of the source. An exception of a callee
  ends the call. \<^verbatim>\<open>calculate_income_tax\<close> is called with its default \<^verbatim>\<open>parts = 1.0\<close>.
\<close>

definition calculate_complete_taxation ::
  "calculator \<Rightarrow> real \<Rightarrow> real \<Rightarrow> real \<Rightarrow> real \<Rightarrow> real \<Rightarrow> py_error + taxation_result" where
  "calculate_complete_taxation self gross requested revenue expenses rate =
     (let salary_charges = calculate_social_charges_on_salary self gross;
          total_salary_cost = total_cost_to_company salary_charges;
          pbt = revenue - expenses - total_salary_cost;
          ctax = calculate_corporate_tax self pbt;
          pat = pbt - ctax;
          actual_dividends = min requested (max 0 pat)
      in case calculate_dividends_taxation self actual_dividends of
           Inl err \<Rightarrow> Inl err
         | Inr dividend_tax \<Rightarrow>
            (let taxable = net_salary salary_charges * 0.9
             in case calculate_income_tax self taxable 1 of
                  Inl err \<Rightarrow> Inl err
                | Inr income_tax_salary \<Rightarrow>
                   (let vat_part = calculate_vat self revenue expenses rate;
                        all_social = total_social_charges salary_charges + social_charges dividend_tax;
                        all_income_tax = income_tax_salary + div_income_tax dividend_tax;
                        all_taxes =
                          total_social_charges salary_charges + ctax + total_tax dividend_tax
                            + income_tax_salary + vat_to_pay vat_part;
                        net = net_salary salary_charges - income_tax_salary
                                + net_dividends dividend_tax
                    in case (if revenue > 0 then py_truediv all_taxes revenue else Inr 0) of
                         Inl err \<Rightarrow> Inl err
                       | Inr effective \<Rightarrow>
                           Inr \<lparr> input =
                                   \<lparr> in_gross_salary = gross, in_dividends = requested,
                                     in_revenue = revenue, in_expenses = expenses \<rparr>,
                                 salary = salary_charges,
                                 corporate =
                                   \<lparr> profit_before_tax = pbt, corporate_tax = ctax,
                                     profit_after_tax = pat,
                                     available_for_dividends = max 0 pat \<rparr>,
                                 dividends = dividend_tax,
                                 income_tax =
                                   \<lparr> taxable_salary = taxable,
                                     tax_on_salary = income_tax_salary,
                                     it_total = all_income_tax \<rparr>,
                                 vat = vat_part,
                                 summary =
                                   \<lparr> sum_total_social_charges = all_social,
                                     total_corporate_tax = ctax,
                                     total_income_tax = all_income_tax,
                                     total_vat = vat_to_pay vat_part,
                                     total_taxes = all_taxes,
                                     net_income = net,
                                     effective_tax_rate = effective \<rparr> \<rparr>)))"

section \<open>The optimizer\<close>

record optimization_result =
  optimal_gross_salary :: real
  optimal_dividends :: real
  net_income_achieved :: real
  total_tax_burden :: real
  opt_effective_tax_rate :: real
  breakdown :: summary_breakdown
  full_calculation :: taxation_result

text \<open>The variables \<^verbatim>\<open>optimize_remuneration\<close> updates in its outer loop.\<close>

record search_state =
  best_salary :: real
  best_dividends :: real
  min_total_tax :: xfloat
  best_result :: "taxation_result option"

definition salary_steps :: nat where
  "salary_steps = 20"

text \<open>\<^verbatim>\<open>test_salary\<close> of iteration \<open>i\<close>.\<close>

definition test_salary_at :: "real \<Rightarrow> real \<Rightarrow> nat \<Rightarrow> real" where
  "test_salary_at min_salary max_salary i =
     min_salary + (max_salary - min_salary) * real i / real salary_steps"

text \<open>
  The inner \<^verbatim>\<open>while high - low > 100\<close> loop, returning the final \<^verbatim>\<open>(low, high)\<close>.
  Every probe calls \<^verbatim>\<open>calculate_complete_taxation\<close> with four arguments, so with the
  default VAT rate.
\<close>

function bisect_dividends ::
  "calculator \<Rightarrow> real \<Rightarrow> real \<Rightarrow> real \<Rightarrow> real \<Rightarrow> real \<Rightarrow> real \<Rightarrow> py_error + (real \<times> real)" where
  "bisect_dividends self test_salary target revenue expenses low high =
     (if high - low > 100 then
        (let mid = (low + high) / 2
         in case calculate_complete_taxation self test_salary mid revenue expenses
                   default_vat_rate of
              Inl err \<Rightarrow> Inl err
            | Inr result \<Rightarrow>
                if net_income (summary result) < target
                then bisect_dividends self test_salary target revenue expenses mid high
                else bisect_dividends self test_salary target revenue expenses low mid)
      else Inr (low, high))"
  by pat_completeness auto
termination
  by (relation "measure (\<lambda>(self, test_salary, target, revenue, expenses, low, high).
                    nat \<lfloor>high - low\<rfloor>)")
     (auto, linarith+)

declare bisect_dividends.simps [simp del]

text \<open>One iteration of the outer loop; \<^verbatim>\<open>continue\<close> returns the state unchanged.\<close>

definition optimize_step ::
  "calculator \<Rightarrow> real \<Rightarrow> real \<Rightarrow> real \<Rightarrow> real \<Rightarrow> real \<Rightarrow> search_state \<Rightarrow> nat
     \<Rightarrow> py_error + search_state" where
  "optimize_step self target revenue expenses min_salary max_salary st i =
     (let test_salary = test_salary_at min_salary max_salary i;
          salary_result = calculate_social_charges_on_salary self test_salary;
          pbt = revenue - expenses - total_cost_to_company salary_result
      in if pbt \<le> 0 then Inr st
         else
           (let ctax = calculate_corporate_tax self pbt;
                available = pbt - ctax
            in if available \<le> 0 then Inr st
               else
                 (case bisect_dividends self test_salary target revenue expenses 0 available of
                    Inl err \<Rightarrow> Inl err
                  | Inr (low, high) \<Rightarrow>
                     (let test_dividends = (low + high) / 2
                      in case calculate_complete_taxation self test_salary test_dividends
                                revenue expenses default_vat_rate of
                           Inl err \<Rightarrow> Inl err
                         | Inr result \<Rightarrow>
                             if \<bar>net_income (summary result) - target\<bar> < 1000
                                \<and> lt_x (total_taxes (summary result)) (min_total_tax st)
                             then Inr \<lparr> best_salary = test_salary,
                                        best_dividends = test_dividends,
                                        min_total_tax = Fin (total_taxes (summary result)),
                                        best_result = Some result \<rparr>
                             else Inr st))))"

fun optimize_loop ::
  "calculator \<Rightarrow> real \<Rightarrow> real \<Rightarrow> real \<Rightarrow> real \<Rightarrow> real \<Rightarrow> nat list \<Rightarrow> search_state
     \<Rightarrow> py_error + search_state" where
  "optimize_loop self target revenue expenses min_salary max_salary [] st = Inr st"
| "optimize_loop self target revenue expenses min_salary max_salary (i # rest) st =
     (case optimize_step self target revenue expenses min_salary max_salary st i of
        Inl err \<Rightarrow> Inl err
      | Inr st' \<Rightarrow> optimize_loop self target revenue expenses min_salary max_salary rest st')"

definition make_optimization_result :: "real \<Rightarrow> real \<Rightarrow> taxation_result \<Rightarrow> optimization_result" where
  "make_optimization_result sal divs result =
     \<lparr> optimal_gross_salary = sal,
       optimal_dividends = divs,
       net_income_achieved = net_income (summary result),
       total_tax_burden = total_taxes (summary result),
       opt_effective_tax_rate = effective_tax_rate (summary result),
       breakdown = summary result,
       full_calculation = result \<rparr>"

text \<open>
  The argument \<^verbatim>\<open>constraints\<close> is \<^verbatim>\<open>None\<close> or a dictionary from strings to floats.
  \<^verbatim>\<open>None\<close> is replaced by the empty dictionary, and the dictionary is only read through
  \<^verbatim>\<open>constraints.get(key, default)\<close>.
\<close>

definition constraints_get :: "(string \<rightharpoonup> real) option \<Rightarrow> string \<Rightarrow> real \<Rightarrow> real" where
  "constraints_get constraints key dflt =
     (case constraints of
        None \<Rightarrow> dflt
      | Some m \<Rightarrow> (case m key of None \<Rightarrow> dflt | Some v \<Rightarrow> v))"

definition optimize_remuneration ::
  "calculator \<Rightarrow> real \<Rightarrow> real \<Rightarrow> real \<Rightarrow> (string \<rightharpoonup> real) option
     \<Rightarrow> py_error + optimization_result" where
  "optimize_remuneration self target revenue expenses constraints =
     (let min_salary = constraints_get constraints ''min_salary'' (smic_annual self);
          max_salary = constraints_get constraints ''max_salary'' (revenue * 0.8);
          start = \<lparr> best_salary = min_salary, best_dividends = 0, min_total_tax = PosInf,
                    best_result = None \<rparr>
      in case optimize_loop self target revenue expenses min_salary max_salary
                [0 ..< salary_steps + 1] start of
           Inl err \<Rightarrow> Inl err
         | Inr st \<Rightarrow>
            (case best_result st of
               None \<Rightarrow>
                (case calculate_complete_taxation self min_salary 0 revenue expenses
                        default_vat_rate of
                   Inl err \<Rightarrow> Inl err
                 | Inr result \<Rightarrow> Inr (make_optimization_result min_salary 0 result))
             | Some result \<Rightarrow>
                 Inr (make_optimization_result (best_salary st) (best_dividends st) result)))"

section \<open>Invariant of the search\<close>

text \<open>
  What holds of the loop variables of \<^verbatim>\<open>optimize_remuneration\<close> after the samples
  \<open>seen\<close>: either nothing was accepted and they have their initial values, or they hold
  an accepted sample together with the result computed for it.
\<close>

definition search_inv ::
  "calculator \<Rightarrow> real \<Rightarrow> real \<Rightarrow> real \<Rightarrow> real \<Rightarrow> real \<Rightarrow> nat set \<Rightarrow> search_state \<Rightarrow> bool" where
  "search_inv self target revenue expenses min_salary max_salary seen st =
     (case best_result st of
        None \<Rightarrow>
          best_salary st = min_salary \<and> best_dividends st = 0 \<and> min_total_tax st = PosInf
      | Some result \<Rightarrow>
          (\<exists>i \<in> seen. best_salary st = test_salary_at min_salary max_salary i)
          \<and> 0 < best_dividends st
          \<and> calculate_complete_taxation self (best_salary st) (best_dividends st) revenue
                expenses default_vat_rate = Inr result
          \<and> \<bar>net_income (summary result) - target\<bar> < 1000
          \<and> min_total_tax st = Fin (total_taxes (summary result)))"

text \<open>
  What iteration \<open>i\<close> of the outer loop does when no earlier sample was accepted, and the
  result it accepts, if any: \<open>None\<close> when the sample is skipped or fails the tolerance
  test.
\<close>

definition sample_outcome ::
  "calculator \<Rightarrow> real \<Rightarrow> real \<Rightarrow> real \<Rightarrow> real \<Rightarrow> real \<Rightarrow> nat \<Rightarrow> py_error + search_state" where
  "sample_outcome self target revenue expenses min_salary max_salary i =
     optimize_step self target revenue expenses min_salary max_salary
       \<lparr> best_salary = min_salary, best_dividends = 0, min_total_tax = PosInf,
         best_result = None \<rparr> i"

definition accepted_at ::
  "calculator \<Rightarrow> real \<Rightarrow> real \<Rightarrow> real \<Rightarrow> real \<Rightarrow> real \<Rightarrow> nat \<Rightarrow> taxation_result option" where
  "accepted_at self target revenue expenses min_salary max_salary i =
     (case sample_outcome self target revenue expenses min_salary max_salary i of
        Inl err \<Rightarrow> None
      | Inr st \<Rightarrow> best_result st)"

text \<open>
  The selection made by the running minimum of the outer loop: among the first \<open>n\<close>
  samples, the accepted result \<open>res\<close> of sample \<open>k\<close> has the least total taxes, and is
  the first to have them.
\<close>

definition least_tax_among ::
  "(nat \<Rightarrow> taxation_result option) \<Rightarrow> nat \<Rightarrow> nat \<Rightarrow> taxation_result \<Rightarrow> bool" where
  "least_tax_among acc n k res =
     (\<forall>i<n. \<forall>ri. acc i = Some ri \<longrightarrow>
        total_taxes (summary res) \<le> total_taxes (summary ri)
        \<and> (i < k \<longrightarrow> total_taxes (summary res) < total_taxes (summary ri)))"

text \<open>
  The largest finite IEEE double, \<^verbatim>\<open>sys.float_info.max\<close>. A float division whose exact
  quotient is \<open>2 ^ 1024\<close> or more returns \<^verbatim>\<open>inf\<close>.
\<close>

definition DBL_MAX :: real where
  "DBL_MAX = (2 - 1 / 2 ^ 52) * 2 ^ 1023"


section \<open>Facts about the tax engine\<close>

text \<open>
  The three functions that could raise do not: both divisions of the engine are guarded,
  and \<^verbatim>\<open>calculate_complete_taxation\<close> passes \<^verbatim>\<open>parts = 1.0\<close>.
\<close>

lemma calculate_dividends_taxation_returns:
  "calculate_dividends_taxation self a =
     Inr (if a \<le> 0
          then \<lparr> div_dividends = 0, social_charges = 0, div_income_tax = 0, total_tax = 0,
                 net_dividends = 0, effective_rate = None \<rparr>
          else \<lparr> div_dividends = a, social_charges = a * dividends_social self,
                 div_income_tax = a * dividends_pfu self,
                 total_tax = a * dividends_social self + a * dividends_pfu self,
                 net_dividends = a - (a * dividends_social self + a * dividends_pfu self),
                 effective_rate =
                   Some ((a * dividends_social self + a * dividends_pfu self) / a) \<rparr>)"
  by (simp add: calculate_dividends_taxation_def py_truediv_def Let_def)

lemma calculate_income_tax_default_parts:
  "calculate_income_tax self x 1 =
     Inr (if x \<le> 0 then 0 else income_tax_loop x None (income_tax_brackets self) 0)"
  by (simp add: calculate_income_tax_def py_truediv_def)

lemma effective_rate_guard:
  "(if r > 0 then py_truediv t r else Inr 0) = Inr (if r > 0 then t / r else 0)"
  by (simp add: py_truediv_def)

lemma calculate_complete_taxation_returns:
  "\<exists>res. calculate_complete_taxation self g d r e v = Inr res"
  by (simp add: calculate_complete_taxation_def calculate_dividends_taxation_returns
      calculate_income_tax_default_parts effective_rate_guard Let_def)

lemma calculate_complete_taxation_fields:
  assumes "calculate_complete_taxation self g d r e v = Inr res"
  shows "salary res = calculate_social_charges_on_salary self g"
    and "profit_before_tax (corporate res) = r - e - total_cost_to_company (salary res)"
    and "corporate_tax (corporate res) =
           calculate_corporate_tax self (profit_before_tax (corporate res))"
    and "profit_after_tax (corporate res) =
           profit_before_tax (corporate res) - corporate_tax (corporate res)"
    and "calculate_dividends_taxation self (min d (max 0 (profit_after_tax (corporate res))))
           = Inr (dividends res)"
    and "vat res = calculate_vat self r e v"
    and "total_taxes (summary res) =
           total_social_charges (salary res) + corporate_tax (corporate res)
             + total_tax (dividends res) + tax_on_salary (income_tax res)
             + vat_to_pay (vat res)"
    and "effective_tax_rate (summary res) =
           (if r > 0 then total_taxes (summary res) / r else 0)"
proof -
  have res: "res = projr (calculate_complete_taxation self g d r e v)"
    using assms by simp
  show "salary res = calculate_social_charges_on_salary self g"
    and "profit_before_tax (corporate res) = r - e - total_cost_to_company (salary res)"
    and "corporate_tax (corporate res) =
           calculate_corporate_tax self (profit_before_tax (corporate res))"
    and "profit_after_tax (corporate res) =
           profit_before_tax (corporate res) - corporate_tax (corporate res)"
    and "calculate_dividends_taxation self (min d (max 0 (profit_after_tax (corporate res))))
           = Inr (dividends res)"
    and "vat res = calculate_vat self r e v"
    and "total_taxes (summary res) =
           total_social_charges (salary res) + corporate_tax (corporate res)
             + total_tax (dividends res) + tax_on_salary (income_tax res)
             + vat_to_pay (vat res)"
    and "effective_tax_rate (summary res) =
           (if r > 0 then total_taxes (summary res) / r else 0)"
    unfolding res
    by (simp_all add: calculate_complete_taxation_def calculate_dividends_taxation_returns
      calculate_income_tax_default_parts effective_rate_guard py_truediv_def Let_def)
qed

lemma corporate_tax_formula:
  "calculate_corporate_tax FrenchTaxCalculator p =
     (if p \<le> 0 then 0
      else if p \<le> 42500 then p * 0.15
      else 42500 * 0.15 + (p - 42500) * 0.25)"
  by (simp add: calculate_corporate_tax_def FrenchTaxCalculator_def Let_def)

lemma div_dividends_taxation:
  "calculate_dividends_taxation self a = Inr dt \<Longrightarrow> div_dividends dt = max 0 a"
  by (auto simp add: calculate_dividends_taxation_returns split: if_splits)


lemma calculate_complete_taxation_net_income:
  assumes "calculate_complete_taxation self g d r e v = Inr res"
  shows "net_income (summary res) =
           net_salary (salary res) - tax_on_salary (income_tax res)
             + net_dividends (dividends res)"
    and "calculate_income_tax self (net_salary (salary res) * 0.9) 1 =
           Inr (tax_on_salary (income_tax res))"
proof -
  have res: "res = projr (calculate_complete_taxation self g d r e v)"
    using assms by simp
  show "net_income (summary res) =
           net_salary (salary res) - tax_on_salary (income_tax res)
             + net_dividends (dividends res)"
    and "calculate_income_tax self (net_salary (salary res) * 0.9) 1 =
           Inr (tax_on_salary (income_tax res))"
    unfolding res
    by (simp_all add: calculate_complete_taxation_def calculate_dividends_taxation_returns
      calculate_income_tax_default_parts effective_rate_guard py_truediv_def Let_def)
qed

lemma net_dividends_taxation:
  "calculate_dividends_taxation self a = Inr dt \<Longrightarrow>
     net_dividends dt =
       (if a \<le> 0 then 0 else a - (a * dividends_social self + a * dividends_pfu self))"
  by (auto simp add: calculate_dividends_taxation_returns split: if_splits)

lemma calculate_complete_taxation_input:
  assumes "calculate_complete_taxation self g d r e v = Inr res"
  shows "input res = \<lparr> in_gross_salary = g, in_dividends = d, in_revenue = r, in_expenses = e \<rparr>"
proof -
  have res: "res = projr (calculate_complete_taxation self g d r e v)"
    using assms by simp
  show ?thesis
    unfolding res
    by (simp add: calculate_complete_taxation_def calculate_dividends_taxation_returns
      calculate_income_tax_default_parts effective_rate_guard py_truediv_def Let_def)
qed

lemma total_tax_taxation:
  "calculate_dividends_taxation self a = Inr dt \<Longrightarrow>
     total_tax dt = (if a \<le> 0 then 0 else a * dividends_social self + a * dividends_pfu self)"
  by (auto simp add: calculate_dividends_taxation_returns split: if_splits)

text \<open>Below the cap, net income and total taxes are linear in the dividends.\<close>

lemma complete_taxation_linear:
  assumes res: "calculate_complete_taxation self g d r e v = Inr res"
    and d: "0 \<le> d" "d \<le> profit_after_tax (corporate res)"
  shows "net_income (summary res) =
           net_salary (salary res) - tax_on_salary (income_tax res)
             + d * (1 - (dividends_social self + dividends_pfu self))"
    and "total_taxes (summary res) =
           total_social_charges (salary res) + corporate_tax (corporate res)
             + d * (dividends_social self + dividends_pfu self)
             + tax_on_salary (income_tax res) + vat_to_pay (vat res)"
proof -
  note f = calculate_complete_taxation_fields [OF res]
  have m: "min d (max 0 (profit_after_tax (corporate res))) = d"
    using d by simp
  have nd: "net_dividends (dividends res) =
              d * (1 - (dividends_social self + dividends_pfu self))"
    using net_dividends_taxation [OF f(5)] d(1) unfolding m
    by (cases "d = 0") (simp_all add: algebra_simps)
  have tt: "total_tax (dividends res) = d * (dividends_social self + dividends_pfu self)"
    using total_tax_taxation [OF f(5)] d(1) unfolding m
    by (cases "d = 0") (simp_all add: algebra_simps)
  show "net_income (summary res) =
           net_salary (salary res) - tax_on_salary (income_tax res)
             + d * (1 - (dividends_social self + dividends_pfu self))"
    using calculate_complete_taxation_net_income(1) [OF res] nd by simp
  show "total_taxes (summary res) =
           total_social_charges (salary res) + corporate_tax (corporate res)
             + d * (dividends_social self + dividends_pfu self)
             + tax_on_salary (income_tax res) + vat_to_pay (vat res)"
    using f(7) tt by simp
qed

text \<open>
  The parts of a result that do not depend on the dividends, for the 2024 rates: \<open>pbt\<close> is
  the profit before tax of the salary \<open>g\<close> and \<open>it\<close> the income tax on it.
\<close>

lemma french_taxation_at:
  assumes res: "calculate_complete_taxation FrenchTaxCalculator g d r e default_vat_rate = Inr res"
    and pbt: "pbt = r - e - g * 1.42"
    and it: "calculate_income_tax FrenchTaxCalculator (g * 0.78 * 0.9) 1 = Inr it"
    and d: "0 \<le> d" "d \<le> pbt - calculate_corporate_tax FrenchTaxCalculator pbt"
  shows "net_income (summary res) = g * 0.78 - it + d * 0.7"
    and "total_taxes (summary res) =
           g * 0.64 + calculate_corporate_tax FrenchTaxCalculator pbt + d * 0.3 + it
             + max 0 (r * 0.2 - e * 0.2)"
    and "in_dividends (input res) = d"
proof -
  note f = calculate_complete_taxation_fields [OF res]
  have sal: "salary res = calculate_social_charges_on_salary FrenchTaxCalculator g"
    by (fact f(1))
  have ns: "net_salary (salary res) = g * 0.78"
    and ts: "total_social_charges (salary res) = g * 0.64"
    and tc: "total_cost_to_company (salary res) = g * 1.42"
    unfolding sal
    by (simp_all add: calculate_social_charges_on_salary_def FrenchTaxCalculator_def)
  have pb: "profit_before_tax (corporate res) = pbt"
    using f(2) tc pbt by simp
  have ct: "corporate_tax (corporate res) = calculate_corporate_tax FrenchTaxCalculator pbt"
    using f(3) pb by simp
  have pa: "profit_after_tax (corporate res) = pbt - calculate_corporate_tax FrenchTaxCalculator pbt"
    using f(4) pb ct by simp
  have tx: "tax_on_salary (income_tax res) = it"
    using calculate_complete_taxation_net_income(2) [OF res] it unfolding ns by simp
  have vt: "vat_to_pay (vat res) = max 0 (r * 0.2 - e * 0.2)"
    using f(6) by (simp add: calculate_vat_def default_vat_rate_def Let_def)
  have rates: "dividends_social FrenchTaxCalculator + dividends_pfu FrenchTaxCalculator = 0.3"
    by (simp add: FrenchTaxCalculator_def)
  have d': "d \<le> profit_after_tax (corporate res)" using d(2) pa by simp
  note l = complete_taxation_linear [OF res d(1) d']
  show "net_income (summary res) = g * 0.78 - it + d * 0.7"
    using l(1) unfolding rates ns tx by simp
  show "total_taxes (summary res) =
           g * 0.64 + calculate_corporate_tax FrenchTaxCalculator pbt + d * 0.3 + it
             + max 0 (r * 0.2 - e * 0.2)"
    using l(2) unfolding rates ts ct tx vt by simp
  show "in_dividends (input res) = d"
    using calculate_complete_taxation_input [OF res] by simp
qed

section \<open>Claims about the tax engine\<close>

text \<open>
  C1, as amended. \<^verbatim>\<open>calculate_complete_taxation\<close> returns for every input, and the
  dividend dictionary of its result is \<^verbatim>\<open>calculate_dividends_taxation\<close> of
  \<open>min requested (max 0 profit_after_tax)\<close>. For every request of at least 0 the returned
  field \<^verbatim>\<open>dividends.dividends\<close> is that minimum, and whenever the request exceeds the
  profit after tax it is \<open>max 0 profit_after_tax\<close>, which differs from the request
  unless the request is 0.
\<close>

theorem dividend_cap:
  "\<exists>res. calculate_complete_taxation self g d r e v = Inr res
     \<and> profit_after_tax (corporate res) =
         (r - e - (g + g * salary_employer self))
           - calculate_corporate_tax self (r - e - (g + g * salary_employer self))
     \<and> calculate_dividends_taxation self (min d (max 0 (profit_after_tax (corporate res))))
         = Inr (dividends res)
     \<and> div_dividends (dividends res) = max 0 (min d (max 0 (profit_after_tax (corporate res))))
     \<and> (0 \<le> d \<longrightarrow>
          div_dividends (dividends res) = min d (max 0 (profit_after_tax (corporate res))))
     \<and> (d > profit_after_tax (corporate res) \<longrightarrow>
          div_dividends (dividends res) = max 0 (profit_after_tax (corporate res)))
     \<and> (d > profit_after_tax (corporate res) \<and> d \<noteq> 0 \<longrightarrow>
          div_dividends (dividends res) \<noteq> d)"
proof -
  obtain res where r: "calculate_complete_taxation self g d r e v = Inr res"
    using calculate_complete_taxation_returns by blast
  note f = calculate_complete_taxation_fields [OF r]
  have pat: "profit_after_tax (corporate res) =
         (r - e - (g + g * salary_employer self))
           - calculate_corporate_tax self (r - e - (g + g * salary_employer self))"
    using f(1-4) by (simp add: calculate_social_charges_on_salary_def Let_def)
  have dd: "div_dividends (dividends res) =
              max 0 (min d (max 0 (profit_after_tax (corporate res))))"
    using div_dividends_taxation [OF f(5)] .
  have nonneg: "0 \<le> d \<longrightarrow>
          div_dividends (dividends res) = min d (max 0 (profit_after_tax (corporate res)))"
    using dd by auto
  have capped: "d > profit_after_tax (corporate res) \<longrightarrow>
          div_dividends (dividends res) = max 0 (profit_after_tax (corporate res))"
    using dd by auto
  have differs: "d > profit_after_tax (corporate res) \<and> d \<noteq> 0 \<longrightarrow>
          div_dividends (dividends res) \<noteq> d"
    unfolding dd by (simp add: max_def min_def)
  show ?thesis
    by (intro exI [of _ res] conjI) (fact r pat f(5) dd nonneg capped differs)+
qed


theorem dividend_cap_witness:
  "(0::real) \<le> 100000 \<and> (100000::real) > 4250
   \<and> (\<exists>res. calculate_complete_taxation FrenchTaxCalculator 0 100000 60000 55000 0.20 = Inr res
        \<and> profit_after_tax (corporate res) = 4250
        \<and> div_dividends (dividends res) = 4250)"
proof -
  obtain res where
    r: "calculate_complete_taxation FrenchTaxCalculator 0 100000 60000 55000 0.20 = Inr res"
    and pat: "profit_after_tax (corporate res) =
         (60000 - 55000 - (0 + 0 * salary_employer FrenchTaxCalculator))
           - calculate_corporate_tax FrenchTaxCalculator
               (60000 - 55000 - (0 + 0 * salary_employer FrenchTaxCalculator))"
    and cap: "(100000::real) > profit_after_tax (corporate res) \<longrightarrow>
          div_dividends (dividends res) = max 0 (profit_after_tax (corporate res))"
    using dividend_cap [of FrenchTaxCalculator 0 100000 60000 55000 "0.20"] by blast
  have p: "profit_after_tax (corporate res) = 4250"
    using pat by (simp add: corporate_tax_formula)
  then have "div_dividends (dividends res) = 4250"
    using cap by simp
  then show ?thesis using r p by simp
qed


text \<open>
  C1 as stated fails in its last clause, at a request of 0 with a loss: with a gross salary
  of 40000, revenue 50000 and no expenses the profit after tax is -6800, below the request
  0, and the returned field is 0, which is the requested value.
\<close>

theorem dividend_cap_counterexample:
  "\<not> isl (calculate_complete_taxation FrenchTaxCalculator 40000 0 50000 0 0.20)
   \<and> profit_after_tax (corporate (projr
        (calculate_complete_taxation FrenchTaxCalculator 40000 0 50000 0 0.20))) = - 6800
   \<and> in_dividends (input (projr
        (calculate_complete_taxation FrenchTaxCalculator 40000 0 50000 0 0.20))) = 0
   \<and> profit_after_tax (corporate (projr
        (calculate_complete_taxation FrenchTaxCalculator 40000 0 50000 0 0.20)))
       < in_dividends (input (projr
        (calculate_complete_taxation FrenchTaxCalculator 40000 0 50000 0 0.20)))
   \<and> div_dividends (dividends (projr
        (calculate_complete_taxation FrenchTaxCalculator 40000 0 50000 0 0.20)))
       = in_dividends (input (projr
        (calculate_complete_taxation FrenchTaxCalculator 40000 0 50000 0 0.20)))"
proof -
  obtain res where
    r: "calculate_complete_taxation FrenchTaxCalculator 40000 0 50000 0 0.20 = Inr res"
    using calculate_complete_taxation_returns by blast
  note f = calculate_complete_taxation_fields [OF r]
  have p: "profit_after_tax (corporate res) = - 6800"
    using f(1-4)
    by (simp add: calculate_social_charges_on_salary_def Let_def corporate_tax_formula)
      (simp add: FrenchTaxCalculator_def)
  have "div_dividends (dividends res) = max 0 (min 0 (max 0 (profit_after_tax (corporate res))))"
    using div_dividends_taxation [OF f(5)] .
  then have d: "div_dividends (dividends res) = 0"
    using p by simp
  have i: "in_dividends (input res) = 0"
    using calculate_complete_taxation_input [OF r] by simp
  show ?thesis using r p d i by simp
qed

text \<open>
  C2. \<^verbatim>\<open>calculate_corporate_tax\<close> returns 0 for a profit of at most 0; a positive profit
  is taxed at 15% up to 42500 inclusive and at 25% above. In particular the tax of 42500
  is \<open>42500 * 0.15\<close> and the tax of 42501 is \<open>42500 * 0.15 + 1 * 0.25\<close>.
\<close>

theorem corporate_tax_bracket_walk:
  "calculate_corporate_tax FrenchTaxCalculator p =
     (if p \<le> 0 then 0
      else if p \<le> 42500 then p * 0.15
      else 42500 * 0.15 + (p - 42500) * 0.25)
   \<and> calculate_corporate_tax FrenchTaxCalculator 42500 = 42500 * 0.15
   \<and> calculate_corporate_tax FrenchTaxCalculator 42501 = 42500 * 0.15 + 1 * 0.25"
  by (simp add: calculate_corporate_tax_def FrenchTaxCalculator_def Let_def)


theorem corporate_tax_bracket_walk_witness:
  "calculate_corporate_tax FrenchTaxCalculator (-7) = 0
   \<and> calculate_corporate_tax FrenchTaxCalculator 100000 = 20750"
  using corporate_tax_bracket_walk [of "-7"] corporate_tax_bracket_walk [of 100000]
  by simp


text \<open>
  C3. For a gross salary of 40000, no dividends, revenue 150000, expenses 50000 and a VAT
  rate of 0.20, the profit before tax is 43200, the corporate tax 6550 and the VAT to
  pay 20000.
\<close>

theorem scenario_one:
  "\<exists>res. calculate_complete_taxation FrenchTaxCalculator 40000 0 150000 50000 0.20 = Inr res
     \<and> profit_before_tax (corporate res) = 43200
     \<and> corporate_tax (corporate res) = 6550
     \<and> vat_to_pay (vat res) = 20000"
proof -
  obtain res where r: "calculate_complete_taxation FrenchTaxCalculator 40000 0 150000 50000 0.20 = Inr res"
    using calculate_complete_taxation_returns by blast
  have s: "total_cost_to_company (salary res) = 56800"
    using calculate_complete_taxation_fields(1) [OF r]
    by (simp add: calculate_social_charges_on_salary_def FrenchTaxCalculator_def Let_def)
  have p: "profit_before_tax (corporate res) = 43200"
    using calculate_complete_taxation_fields(2) [OF r] s by simp
  have c: "corporate_tax (corporate res) = 6550"
    using calculate_complete_taxation_fields(3) [OF r] p
    by (simp add: corporate_tax_formula)
  have v: "vat_to_pay (vat res) = 20000"
    using calculate_complete_taxation_fields(6) [OF r]
    by (simp add: calculate_vat_def Let_def)
  show ?thesis using r p c v by blast
qed


text \<open>
  C4, as amended. The engine validates nothing and never raises \<open>InvalidInput\<close>.
  \<^verbatim>\<open>calculate_social_charges_on_salary\<close> returns the flat-rate breakdown for every gross
  salary, negative ones included. \<^verbatim>\<open>calculate_income_tax\<close> returns 0 for a taxable income
  of at most 0 whatever \<open>parts\<close> is, raises \<open>ZeroDivisionError\<close> for a positive income and
  \<open>parts = 0\<close>, and with the 2024 brackets returns 0 for a positive income and negative
  \<open>parts\<close>.
\<close>

theorem no_input_validation:
  "calculate_social_charges_on_salary self g =
     \<lparr> gross_salary = g,
       employer_charges = g * salary_employer self,
       employee_charges = g * salary_employee self,
       total_social_charges = g * salary_employer self + g * salary_employee self,
       net_salary = g - g * salary_employee self,
       total_cost_to_company = g + g * salary_employer self \<rparr>
   \<and> (t \<le> 0 \<longrightarrow> calculate_income_tax self t p = Inr 0)
   \<and> (t > 0 \<and> p = 0 \<longrightarrow> calculate_income_tax self t p = Inl ZeroDivisionError)
   \<and> (t > 0 \<and> p < 0 \<longrightarrow> calculate_income_tax FrenchTaxCalculator t p = Inr 0)
   \<and> calculate_income_tax self t p \<noteq> Inl InvalidInput"
proof -
  have neg: "t > 0 \<and> p < 0 \<longrightarrow> calculate_income_tax FrenchTaxCalculator t p = Inr 0"
  proof (intro impI)
    assume a: "t > 0 \<and> p < 0"
    then have "t / p < 0" by (simp add: divide_pos_neg)
    then have "t / p \<le> 11294" by simp
    then show "calculate_income_tax FrenchTaxCalculator t p = Inr 0"
      using a by (simp add: calculate_income_tax_def py_truediv_def FrenchTaxCalculator_def)
  qed
  show ?thesis
    using neg
    by (simp add: calculate_social_charges_on_salary_def Let_def calculate_income_tax_def
        py_truediv_def)
qed


theorem no_input_validation_witness:
  "calculate_income_tax FrenchTaxCalculator (-3) 2 = Inr 0
   \<and> calculate_income_tax FrenchTaxCalculator 1000 0 = Inl ZeroDivisionError
   \<and> calculate_income_tax FrenchTaxCalculator 1000 (-2) = Inr 0"
  using no_input_validation [of FrenchTaxCalculator 0 "-3" 2]
    no_input_validation [of FrenchTaxCalculator 0 1000 0]
    no_input_validation [of FrenchTaxCalculator 0 1000 "-2"]
  by simp


text \<open>
  C4 as stated fails: a gross salary of -100 yields a breakdown with negative charges, and
  \<open>parts = 0\<close> or \<open>parts = -1\<close> yields \<open>ZeroDivisionError\<close> or the value 0.
\<close>

theorem invalid_input_counterexample:
  "calculate_social_charges_on_salary FrenchTaxCalculator (-100) =
     \<lparr> gross_salary = -100, employer_charges = -42, employee_charges = -22,
       total_social_charges = -64, net_salary = -78, total_cost_to_company = -142 \<rparr>
   \<and> calculate_income_tax FrenchTaxCalculator 1000 0 = Inl ZeroDivisionError
   \<and> calculate_income_tax FrenchTaxCalculator 1000 0 \<noteq> Inl InvalidInput
   \<and> calculate_income_tax FrenchTaxCalculator 1000 (-1) = Inr 0
   \<and> calculate_income_tax FrenchTaxCalculator (-1000) 0 = Inr 0"
  by (simp add: calculate_social_charges_on_salary_def Let_def calculate_income_tax_def
      py_truediv_def FrenchTaxCalculator_def)


text \<open>
  C5, on the code. For dividends of at most 0, \<^verbatim>\<open>calculate_dividends_taxation\<close> returns
  the dictionary of its first branch: the five fields \<^verbatim>\<open>dividends\<close>,
  \<^verbatim>\<open>social_charges\<close>, \<^verbatim>\<open>income_tax\<close>, \<^verbatim>\<open>total_tax\<close> and \<^verbatim>\<open>net_dividends\<close> are 0, and
  the key \<^verbatim>\<open>effective_rate\<close> is absent.
\<close>

theorem dividends_zero_branch:
  "d \<le> 0 \<Longrightarrow>
     calculate_dividends_taxation self d =
       Inr \<lparr> div_dividends = 0, social_charges = 0, div_income_tax = 0, total_tax = 0,
             net_dividends = 0, effective_rate = None \<rparr>"
  by (simp add: calculate_dividends_taxation_def)


theorem dividends_zero_branch_witness:
  "(0::real) \<le> 0 \<and>
   calculate_dividends_taxation FrenchTaxCalculator 0 =
       Inr \<lparr> div_dividends = 0, social_charges = 0, div_income_tax = 0, total_tax = 0,
             net_dividends = 0, effective_rate = None \<rparr>"
  using dividends_zero_branch [of 0 FrenchTaxCalculator] by simp


text \<open>
  C6, as amended. For every input \<^verbatim>\<open>calculate_complete_taxation\<close> returns a result, so
  the division by the revenue never meets a zero divisor; the effective tax rate of the
  summary is the total taxes divided by the revenue when the revenue is positive, and 0
  otherwise. The quotient itself is not bounded.
\<close>

theorem effective_tax_rate_guarded:
  "\<exists>res. calculate_complete_taxation self g d r e v = Inr res
     \<and> (r > 0 \<longrightarrow> effective_tax_rate (summary res) = total_taxes (summary res) / r)
     \<and> (r \<le> 0 \<longrightarrow> effective_tax_rate (summary res) = 0)"
proof -
  obtain res where r: "calculate_complete_taxation self g d r e v = Inr res"
    using calculate_complete_taxation_returns by blast
  show ?thesis using r calculate_complete_taxation_fields(8) [OF r] by auto
qed


theorem effective_tax_rate_guarded_witness:
  "(\<exists>res. calculate_complete_taxation FrenchTaxCalculator 40000 0 150000 50000 0.20 = Inr res
      \<and> effective_tax_rate (summary res) = total_taxes (summary res) / 150000)
   \<and> (\<exists>res. calculate_complete_taxation FrenchTaxCalculator 40000 0 0 50000 0.20 = Inr res
      \<and> effective_tax_rate (summary res) = 0)"
  using effective_tax_rate_guarded [of FrenchTaxCalculator 40000 0 150000 50000 "0.20"]
    effective_tax_rate_guarded [of FrenchTaxCalculator 40000 0 0 50000 "0.20"]
  by simp

text \<open>
  C6 as stated fails in its last clause: with a gross salary of 40000 and the smallest
  positive double as revenue, \<open>1 / 2 ^ 1074\<close>, the quotient is at least \<open>2 ^ 1024\<close>, above
  the largest finite double, so the float division returns infinity.
\<close>

theorem effective_tax_rate_overflow_counterexample:
  "\<not> isl (calculate_complete_taxation FrenchTaxCalculator 40000 0 (1 / 2 ^ 1074) 0 0.20)
   \<and> (0::real) < 1 / 2 ^ 1074
   \<and> DBL_MAX < 2 ^ 1024
   \<and> 2 ^ 1024 \<le> effective_tax_rate (summary (projr
        (calculate_complete_taxation FrenchTaxCalculator 40000 0 (1 / 2 ^ 1074) 0 0.20)))"
proof -
  define p :: real where "p = 2 ^ 1074"
  have big: "(2::real) ^ 1024 \<le> p"
    unfolding p_def by (rule power_increasing) simp_all
  have ppos: "0 < p" unfolding p_def by simp
  have one: "1 \<le> p" unfolding p_def by (rule one_le_power) simp
  have small: "1 / p \<le> 1" using one ppos by simp
  obtain res where
    r: "calculate_complete_taxation FrenchTaxCalculator 40000 0 (1 / p) 0 0.20 = Inr res"
    using calculate_complete_taxation_returns by blast
  note f = calculate_complete_taxation_fields [OF r]
  have sc: "total_social_charges (salary res) = 25600"
    and tc: "total_cost_to_company (salary res) = 56800"
    unfolding f(1)
    by (simp_all add: calculate_social_charges_on_salary_def FrenchTaxCalculator_def)
  have pbt: "profit_before_tax (corporate res) \<le> 0"
    using f(2) tc small by simp
  have ct: "corporate_tax (corporate res) = 0"
    using f(3) pbt by (simp add: calculate_corporate_tax_def)
  have dv: "total_tax (dividends res) = 0"
    using total_tax_taxation [OF f(5)] by simp
  have ts: "0 \<le> tax_on_salary (income_tax res)"
    using calculate_complete_taxation_net_income(2) [OF r] f(1)
    by (simp add: calculate_income_tax_default_parts calculate_social_charges_on_salary_def
        FrenchTaxCalculator_def)
  have vt: "0 \<le> vat_to_pay (vat res)"
    using f(6) by (simp add: calculate_vat_def Let_def)
  have tt: "1 \<le> total_taxes (summary res)"
    using f(7) sc ct dv ts vt by simp
  have eq: "effective_tax_rate (summary res) = total_taxes (summary res) * p"
    using f(8) ppos by simp
  have "1 * p \<le> total_taxes (summary res) * p"
    using tt ppos by (intro mult_right_mono) simp_all
  then have "p \<le> effective_tax_rate (summary res)"
    unfolding eq by simp
  with big have e: "2 ^ 1024 \<le> effective_tax_rate (summary res)"
    by (rule order_trans)
  have m: "DBL_MAX < 2 ^ 1024"
  proof -
    have "(2 - 1 / 2 ^ 52) * 2 ^ 1023 < (2::real) * 2 ^ 1023"
      by (rule mult_strict_right_mono) simp_all
    then show ?thesis by (simp add: DBL_MAX_def)
  qed
  have z: "(0::real) < 1 / 2 ^ 1074" by simp
  have i: "\<not> isl (calculate_complete_taxation FrenchTaxCalculator 40000 0 (1 / p) 0 0.20)"
    using r by simp
  have e': "2 ^ 1024 \<le> effective_tax_rate (summary (projr
        (calculate_complete_taxation FrenchTaxCalculator 40000 0 (1 / p) 0 0.20)))"
    using e r by simp
  show ?thesis
    using i z m e' unfolding p_def by (intro conjI)
qed


section \<open>Facts about the optimizer\<close>

text \<open>The binary search returns, with a positive upper end when it starts with one.\<close>

lemma bisect_dividends_returns:
  "\<exists>lo hi. bisect_dividends self ts target r e low high = Inr (lo, hi)
      \<and> (0 \<le> low \<and> 0 < high \<longrightarrow> 0 \<le> lo \<and> 0 < hi)"
proof (induction self ts target r e low high rule: bisect_dividends.induct)
  case (1 self ts target r e low high)
  show ?case
  proof (cases "high - low > 100")
    case False
    then show ?thesis by (simp add: bisect_dividends.simps)
  next
    case wide: True
    obtain res where
      res: "calculate_complete_taxation self ts ((low + high) / 2) r e default_vat_rate = Inr res"
      using calculate_complete_taxation_returns by blast
    show ?thesis
    proof (cases "net_income (summary res) < target")
      case True
      from "1.IH"(1) [OF wide refl res True] obtain lo hi where
        "bisect_dividends self ts target r e ((low + high) / 2) high = Inr (lo, hi)"
        "0 \<le> (low + high) / 2 \<and> 0 < high \<longrightarrow> 0 \<le> lo \<and> 0 < hi"
        by blast
      then show ?thesis
        using wide res True by (subst bisect_dividends.simps) auto
    next
      case False
      from "1.IH"(2) [OF wide refl res False] obtain lo hi where
        "bisect_dividends self ts target r e low ((low + high) / 2) = Inr (lo, hi)"
        "0 \<le> low \<and> 0 < (low + high) / 2 \<longrightarrow> 0 \<le> lo \<and> 0 < hi"
        by blast
      then show ?thesis
        using wide res False by (subst bisect_dividends.simps) auto
    qed
  qed
qed


text \<open>The sample salaries are evenly spaced, and run downward when the bounds are inverted.\<close>

lemma test_salary_at_spacing:
  "test_salary_at lo hi (Suc i) - test_salary_at lo hi i = (hi - lo) / 20"
  by (simp add: test_salary_at_def salary_steps_def field_simps)

lemma test_salary_at_ends:
  "test_salary_at lo hi 0 = lo" "test_salary_at lo hi 20 = hi"
  by (simp_all add: test_salary_at_def salary_steps_def diff_divide_distrib)


lemma test_salary_at_decreasing:
  "hi < lo \<Longrightarrow> test_salary_at lo hi (Suc i) < test_salary_at lo hi i"
proof -
  assume "hi < lo"
  then have "(hi - lo) / 20 < 0" by simp
  then show ?thesis using test_salary_at_spacing [of lo hi i] by linarith
qed


text \<open>Every iteration of the outer loop returns and keeps the invariant; an accepted sample is never dropped.\<close>

lemma search_inv_mono:
  "search_inv self target r e lo hi seen st \<Longrightarrow> seen \<subseteq> seen' \<Longrightarrow>
     search_inv self target r e lo hi seen' st"
  by (auto simp add: search_inv_def split: option.splits)

lemma optimize_step_inv:
  assumes inv: "search_inv self target r e lo hi seen st"
  shows "\<exists>st'. optimize_step self target r e lo hi st i = Inr st'
           \<and> search_inv self target r e lo hi (insert i seen) st'
           \<and> (best_result st \<noteq> None \<longrightarrow> best_result st' \<noteq> None)"
proof -
  define ts where "ts = test_salary_at lo hi i"
  define pbt where
    "pbt = r - e - total_cost_to_company (calculate_social_charges_on_salary self ts)"
  define available where "available = pbt - calculate_corporate_tax self pbt"
  have keep: "search_inv self target r e lo hi (insert i seen) st"
    using inv by (rule search_inv_mono) auto
  show ?thesis
  proof (cases "pbt \<le> 0 \<or> available \<le> 0")
    case True
    then have "optimize_step self target r e lo hi st i = Inr st"
      unfolding optimize_step_def Let_def
      unfolding ts_def [symmetric]
      unfolding pbt_def [symmetric]
      unfolding available_def [symmetric]
      by auto
    then show ?thesis using keep by simp
  next
    case False
    then have pos: "\<not> pbt \<le> 0" "\<not> available \<le> 0" by auto
    obtain low high where
      b: "bisect_dividends self ts target r e 0 available = Inr (low, high)"
      and bpos: "0 \<le> low \<and> 0 < high"
      using bisect_dividends_returns [of self ts target r e 0 available] pos(2) by auto
    obtain res where
      res: "calculate_complete_taxation self ts ((low + high) / 2) r e default_vat_rate = Inr res"
      using calculate_complete_taxation_returns by blast
    have step: "optimize_step self target r e lo hi st i =
        (if \<bar>net_income (summary res) - target\<bar> < 1000
            \<and> lt_x (total_taxes (summary res)) (min_total_tax st)
         then Inr \<lparr> best_salary = ts, best_dividends = (low + high) / 2,
                    min_total_tax = Fin (total_taxes (summary res)),
                    best_result = Some res \<rparr>
         else Inr st)"
      unfolding optimize_step_def Let_def
      unfolding ts_def [symmetric]
      unfolding pbt_def [symmetric]
      unfolding available_def [symmetric]
      using pos b res by simp
    show ?thesis
    proof (cases "\<bar>net_income (summary res) - target\<bar> < 1000
            \<and> lt_x (total_taxes (summary res)) (min_total_tax st)")
      case True
      then show ?thesis
        using step res bpos by (simp add: search_inv_def ts_def)
    next
      case False
      then show ?thesis using step keep by auto
    qed
  qed
qed

lemma optimize_loop_inv:
  "search_inv self target r e lo hi seen st \<Longrightarrow>
     \<exists>st'. optimize_loop self target r e lo hi idxs st = Inr st'
        \<and> search_inv self target r e lo hi (seen \<union> set idxs) st'
        \<and> (best_result st \<noteq> None \<longrightarrow> best_result st' \<noteq> None)"
proof (induction idxs arbitrary: st seen)
  case Nil
  then show ?case by simp
next
  case (Cons i idxs)
  from optimize_step_inv [OF Cons.prems, of i] obtain st1 where
    s1: "optimize_step self target r e lo hi st i = Inr st1"
    and i1: "search_inv self target r e lo hi (insert i seen) st1"
    and k1: "best_result st \<noteq> None \<longrightarrow> best_result st1 \<noteq> None"
    by blast
  from Cons.IH [OF i1] obtain st2 where
    s2: "optimize_loop self target r e lo hi idxs st1 = Inr st2"
    and i2: "search_inv self target r e lo hi (insert i seen \<union> set idxs) st2"
    and k2: "best_result st1 \<noteq> None \<longrightarrow> best_result st2 \<noteq> None"
    by blast
  show ?case using s1 s2 i2 k1 k2 by simp
qed


text \<open>
  \<^verbatim>\<open>optimize_remuneration\<close> returns for every input: the fallback, or an accepted sample
  with its result.
\<close>

lemma optimize_remuneration_loop:
  assumes lo: "lo = constraints_get cs ''min_salary'' (smic_annual self)"
    and hi: "hi = constraints_get cs ''max_salary'' (r * 0.8)"
  shows "\<exists>res st.
           optimize_loop self target r e lo hi [0 ..< salary_steps + 1]
               \<lparr> best_salary = lo, best_dividends = 0, min_total_tax = PosInf,
                 best_result = None \<rparr> = Inr st
         \<and> optimize_remuneration self target r e cs = Inr res
         \<and> calculate_complete_taxation self (optimal_gross_salary res) (optimal_dividends res)
               r e default_vat_rate = Inr (full_calculation res)
         \<and> net_income_achieved res = net_income (summary (full_calculation res))
         \<and> (if best_result st = None
             then optimal_gross_salary res = lo \<and> optimal_dividends res = 0
             else (\<exists>i \<le> salary_steps. optimal_gross_salary res = test_salary_at lo hi i)
                  \<and> 0 < optimal_dividends res
                  \<and> \<bar>net_income_achieved res - target\<bar> < 1000)"
proof -
  define start where
    "start = \<lparr> best_salary = lo, best_dividends = 0, min_total_tax = PosInf,
               best_result = None \<rparr>"
  have "search_inv self target r e lo hi {} start"
    by (simp add: search_inv_def start_def)
  from optimize_loop_inv [OF this, of "[0 ..< salary_steps + 1]"] obtain st where
    loop: "optimize_loop self target r e lo hi [0 ..< salary_steps + 1] start = Inr st"
    and inv: "search_inv self target r e lo hi ({} \<union> set [0 ..< salary_steps + 1]) st"
    by blast
  have opt: "optimize_remuneration self target r e cs =
      (case best_result st of
         None \<Rightarrow>
           (case calculate_complete_taxation self lo 0 r e default_vat_rate of
              Inl err \<Rightarrow> Inl err
            | Inr result \<Rightarrow> Inr (make_optimization_result lo 0 result))
       | Some result \<Rightarrow>
           Inr (make_optimization_result (best_salary st) (best_dividends st) result))"
    unfolding optimize_remuneration_def Let_def
    unfolding lo [symmetric] hi [symmetric]
    unfolding start_def [symmetric]
    using loop by simp
  show ?thesis
  proof (cases "best_result st")
    case None
    obtain res where
      res: "calculate_complete_taxation self lo 0 r e default_vat_rate = Inr res"
      using calculate_complete_taxation_returns by blast
    have "optimize_remuneration self target r e cs = Inr (make_optimization_result lo 0 res)"
      using opt None res by simp
    then show ?thesis
      using loop None res
      unfolding start_def
      by (simp add: make_optimization_result_def)
  next
    case (Some res)
    have o: "optimize_remuneration self target r e cs =
               Inr (make_optimization_result (best_salary st) (best_dividends st) res)"
      using opt Some by simp
    have all: "(\<exists>i \<in> set [0 ..< salary_steps + 1]. best_salary st = test_salary_at lo hi i)
        \<and> 0 < best_dividends st
        \<and> calculate_complete_taxation self (best_salary st) (best_dividends st) r e
                default_vat_rate = Inr res
        \<and> \<bar>net_income (summary res) - target\<bar> < 1000"
      using inv Some unfolding search_inv_def by simp
    then obtain i where
      i: "i \<in> set [0 ..< salary_steps + 1]" "best_salary st = test_salary_at lo hi i"
      by blast
    have d: "0 < best_dividends st"
      and c: "calculate_complete_taxation self (best_salary st) (best_dividends st) r e
                default_vat_rate = Inr res"
      and n: "\<bar>net_income (summary res) - target\<bar> < 1000"
      using all by blast+
    have "i \<le> salary_steps" using i(1) by auto
    with i(2)
    have "\<exists>i \<le> salary_steps. best_salary st = test_salary_at lo hi i"
      by blast
    then show ?thesis
      using loop Some o d c n
      unfolding start_def
      by (simp add: make_optimization_result_def)
  qed
qed

lemma optimize_remuneration_cases:
  assumes lo: "lo = constraints_get cs ''min_salary'' (smic_annual self)"
    and hi: "hi = constraints_get cs ''max_salary'' (r * 0.8)"
  shows "\<exists>res.
           optimize_remuneration self target r e cs = Inr res
         \<and> calculate_complete_taxation self (optimal_gross_salary res) (optimal_dividends res)
               r e default_vat_rate = Inr (full_calculation res)
         \<and> net_income_achieved res = net_income (summary (full_calculation res))
         \<and> (optimal_gross_salary res = lo \<and> optimal_dividends res = 0
            \<or> (\<exists>i \<le> salary_steps. optimal_gross_salary res = test_salary_at lo hi i)
                  \<and> 0 < optimal_dividends res
                  \<and> \<bar>net_income_achieved res - target\<bar> < 1000)"
proof -
  from optimize_remuneration_loop [OF lo hi, of target e] obtain res st where
    l: "optimize_loop self target r e lo hi [0 ..< salary_steps + 1]
               \<lparr> best_salary = lo, best_dividends = 0, min_total_tax = PosInf,
                 best_result = None \<rparr> = Inr st"
    and o: "optimize_remuneration self target r e cs = Inr res"
    and c: "calculate_complete_taxation self (optimal_gross_salary res) (optimal_dividends res)
               r e default_vat_rate = Inr (full_calculation res)"
    and n: "net_income_achieved res = net_income (summary (full_calculation res))"
    and d: "if best_result st = None
             then optimal_gross_salary res = lo \<and> optimal_dividends res = 0
             else (\<exists>i \<le> salary_steps. optimal_gross_salary res = test_salary_at lo hi i)
                  \<and> 0 < optimal_dividends res
                  \<and> \<bar>net_income_achieved res - target\<bar> < 1000"
    by blast
  have "optimal_gross_salary res = lo \<and> optimal_dividends res = 0
            \<or> (\<exists>i \<le> salary_steps. optimal_gross_salary res = test_salary_at lo hi i)
                  \<and> 0 < optimal_dividends res
                  \<and> \<bar>net_income_achieved res - target\<bar> < 1000"
    using d by (cases "best_result st = None") simp_all
  then show ?thesis using o c n by blast
qed


text \<open>
  A sample whose profit after tax is at most 100 skips the binary search; when it is
  accepted first, the fallback is not taken.
\<close>

lemma optimize_step_accepts:
  assumes "ts = test_salary_at lo hi i"
    and "pbt = r - e - total_cost_to_company (calculate_social_charges_on_salary self ts)"
    and "0 < pbt"
    and "available = pbt - calculate_corporate_tax self pbt"
    and "0 < available" and "available \<le> 100"
    and "calculate_complete_taxation self ts (available / 2) r e default_vat_rate = Inr res"
    and "\<bar>net_income (summary res) - target\<bar> < 1000"
    and "min_total_tax st = PosInf"
  shows "optimize_step self target r e lo hi st i =
           Inr \<lparr> best_salary = ts, best_dividends = available / 2,
                 min_total_tax = Fin (total_taxes (summary res)),
                 best_result = Some res \<rparr>"
proof -
  have b: "bisect_dividends self ts target r e 0 available = Inr (0, available)"
    using assms(6) by (simp add: bisect_dividends.simps)
  show ?thesis
    unfolding optimize_step_def Let_def
    unfolding assms(1) [symmetric]
    unfolding assms(2) [symmetric]
    unfolding assms(4) [symmetric]
    using assms(3,5,7,8,9) b by simp
qed

lemma optimize_remuneration_first_accepted:
  assumes lo: "lo = constraints_get cs ''min_salary'' (smic_annual self)"
    and hi: "hi = constraints_get cs ''max_salary'' (r * 0.8)"
    and step: "optimize_step self target r e lo hi
                 \<lparr> best_salary = lo, best_dividends = 0, min_total_tax = PosInf,
                   best_result = None \<rparr> 0 = Inr st1"
    and some: "best_result st1 \<noteq> None"
  shows "\<exists>res. optimize_remuneration self target r e cs = Inr res \<and> 0 < optimal_dividends res"
proof -
  define start where
    "start = \<lparr> best_salary = lo, best_dividends = 0, min_total_tax = PosInf,
               best_result = None \<rparr>"
  have "search_inv self target r e lo hi {} start"
    by (simp add: search_inv_def start_def)
  from optimize_step_inv [OF this, of 0] step
  have inv1: "search_inv self target r e lo hi {0} st1"
    by (simp add: start_def)
  from optimize_loop_inv [OF inv1, of "[1 ..< salary_steps + 1]"] some obtain st where
    rest: "optimize_loop self target r e lo hi [1 ..< salary_steps + 1] st1 = Inr st"
    and kept: "best_result st \<noteq> None"
    by blast
  have idx: "[0 ..< salary_steps + 1] = 0 # [1 ..< salary_steps + 1]"
    by (simp add: upt_rec)
  have loop: "optimize_loop self target r e lo hi [0 ..< salary_steps + 1] start = Inr st"
    using step rest unfolding idx start_def by simp
  from optimize_remuneration_loop [OF lo hi, of target e] obtain res st' where
    l': "optimize_loop self target r e lo hi [0 ..< salary_steps + 1] start = Inr st'"
    and o: "optimize_remuneration self target r e cs = Inr res"
    and c: "if best_result st' = None
             then optimal_gross_salary res = lo \<and> optimal_dividends res = 0
             else (\<exists>i \<le> salary_steps. optimal_gross_salary res = test_salary_at lo hi i)
                  \<and> 0 < optimal_dividends res
                  \<and> \<bar>net_income_achieved res - target\<bar> < 1000"
    unfolding start_def by blast
  have "st' = st" using loop l' by simp
  then show ?thesis using o c kept by auto
qed

lemma inverted_example_constraints:
  "constraints_get (Some [''min_salary'' \<mapsto> 30000, ''max_salary'' \<mapsto> 20000]) ''min_salary'' d
     = 30000"
  "constraints_get (Some [''min_salary'' \<mapsto> 30000, ''max_salary'' \<mapsto> 20000]) ''max_salary'' d
     = 20000"
  by (simp_all add: constraints_get_def)



section \<open>The result of the search\<close>

text \<open>
  An iteration either leaves the state as it is, or replaces it by the outcome of its
  sample when that has lower total taxes.
\<close>

lemma optimize_loop_append:
  "optimize_loop self target r e lo hi (xs @ ys) st =
     (case optimize_loop self target r e lo hi xs st of
        Inl err \<Rightarrow> Inl err
      | Inr st' \<Rightarrow> optimize_loop self target r e lo hi ys st')"
  by (induction xs arbitrary: st) (simp_all split: sum.splits)

lemma optimize_step_outcome:
  "\<exists>c. sample_outcome self target r e lo hi i = Inr c
     \<and> (case best_result c of
          None \<Rightarrow> optimize_step self target r e lo hi st i = Inr st
        | Some res \<Rightarrow>
            c = \<lparr> best_salary = test_salary_at lo hi i,
                  best_dividends = in_dividends (input res),
                  min_total_tax = Fin (total_taxes (summary res)),
                  best_result = Some res \<rparr>
            \<and> 0 < in_dividends (input res)
            \<and> calculate_complete_taxation self (test_salary_at lo hi i)
                  (in_dividends (input res)) r e default_vat_rate = Inr res
            \<and> \<bar>net_income (summary res) - target\<bar> < 1000
            \<and> optimize_step self target r e lo hi st i =
                  Inr (if lt_x (total_taxes (summary res)) (min_total_tax st) then c else st))"
proof -
  define start where
    "start = \<lparr> best_salary = lo, best_dividends = 0, min_total_tax = PosInf,
               best_result = (None :: taxation_result option) \<rparr>"
  define ts where "ts = test_salary_at lo hi i"
  define pbt where
    "pbt = r - e - total_cost_to_company (calculate_social_charges_on_salary self ts)"
  define available where "available = pbt - calculate_corporate_tax self pbt"
  have so: "sample_outcome self target r e lo hi i = optimize_step self target r e lo hi start i"
    by (simp add: sample_outcome_def start_def)
  show ?thesis
  proof (cases "pbt \<le> 0 \<or> available \<le> 0")
    case True
    then have "\<And>s. optimize_step self target r e lo hi s i = Inr s"
      unfolding optimize_step_def Let_def
      unfolding ts_def [symmetric]
      unfolding pbt_def [symmetric]
      unfolding available_def [symmetric]
      by auto
    then show ?thesis
      unfolding so by (simp add: start_def)
  next
    case False
    then have pos: "\<not> pbt \<le> 0" "\<not> available \<le> 0" by auto
    obtain low high where
      b: "bisect_dividends self ts target r e 0 available = Inr (low, high)"
      and bpos: "0 \<le> low \<and> 0 < high"
      using bisect_dividends_returns [of self ts target r e 0 available] pos(2) by auto
    define d where "d = (low + high) / 2"
    have dpos: "0 < d" using bpos by (simp add: d_def)
    obtain res where
      res: "calculate_complete_taxation self ts d r e default_vat_rate = Inr res"
      using calculate_complete_taxation_returns by blast
    have ind: "in_dividends (input res) = d"
      using calculate_complete_taxation_input [OF res] by simp
    have step: "\<And>s. optimize_step self target r e lo hi s i =
        (if \<bar>net_income (summary res) - target\<bar> < 1000
            \<and> lt_x (total_taxes (summary res)) (min_total_tax s)
         then Inr \<lparr> best_salary = ts, best_dividends = d,
                    min_total_tax = Fin (total_taxes (summary res)),
                    best_result = Some res \<rparr>
         else Inr s)"
      unfolding optimize_step_def Let_def
      unfolding ts_def [symmetric]
      unfolding pbt_def [symmetric]
      unfolding available_def [symmetric]
      using pos b res by (simp add: d_def)
    show ?thesis
    proof (cases "\<bar>net_income (summary res) - target\<bar> < 1000")
      case True
      have c: "sample_outcome self target r e lo hi i =
                 Inr \<lparr> best_salary = ts, best_dividends = d,
                       min_total_tax = Fin (total_taxes (summary res)),
                       best_result = Some res \<rparr>"
        unfolding so using step [of start] True by (simp add: start_def)
      show ?thesis
        unfolding c using True step [of st] res dpos ind
        by (simp add: ts_def)
    next
      case False
      have c: "sample_outcome self target r e lo hi i = Inr start"
        unfolding so using step [of start] False by simp
      show ?thesis
        unfolding c using False step [of st] by (simp add: start_def)
    qed
  qed
qed

lemma accepted_at_outcome:
  "sample_outcome self target r e lo hi i = Inr c \<Longrightarrow>
     accepted_at self target r e lo hi i = best_result c"
  by (simp add: accepted_at_def)

lemma optimize_step_accepted:
  "(accepted_at self target r e lo hi i = None \<longrightarrow>
      optimize_step self target r e lo hi st i = Inr st)
   \<and> (\<forall>res. accepted_at self target r e lo hi i = Some res \<longrightarrow>
        0 < in_dividends (input res)
        \<and> calculate_complete_taxation self (test_salary_at lo hi i)
              (in_dividends (input res)) r e default_vat_rate = Inr res
        \<and> \<bar>net_income (summary res) - target\<bar> < 1000
        \<and> optimize_step self target r e lo hi st i =
              Inr (if lt_x (total_taxes (summary res)) (min_total_tax st)
                   then \<lparr> best_salary = test_salary_at lo hi i,
                          best_dividends = in_dividends (input res),
                          min_total_tax = Fin (total_taxes (summary res)),
                          best_result = Some res \<rparr>
                   else st))"
proof -
  from optimize_step_outcome [of self target r e lo hi i st] obtain c where
    c: "sample_outcome self target r e lo hi i = Inr c"
    and f: "case best_result c of
          None \<Rightarrow> optimize_step self target r e lo hi st i = Inr st
        | Some res \<Rightarrow>
            c = \<lparr> best_salary = test_salary_at lo hi i,
                  best_dividends = in_dividends (input res),
                  min_total_tax = Fin (total_taxes (summary res)),
                  best_result = Some res \<rparr>
            \<and> 0 < in_dividends (input res)
            \<and> calculate_complete_taxation self (test_salary_at lo hi i)
                  (in_dividends (input res)) r e default_vat_rate = Inr res
            \<and> \<bar>net_income (summary res) - target\<bar> < 1000
            \<and> optimize_step self target r e lo hi st i =
                  Inr (if lt_x (total_taxes (summary res)) (min_total_tax st) then c else st)"
    by blast
  have a: "accepted_at self target r e lo hi i = best_result c"
    using c by (rule accepted_at_outcome)
  show ?thesis
  proof (cases "best_result c")
    case None
    then show ?thesis using f a by simp
  next
    case (Some res)
    then show ?thesis using f a by auto
  qed
qed


text \<open>After the first \<open>n\<close> samples the state holds the first accepted result with the least total taxes.\<close>

lemma optimize_loop_best:
  fixes self :: calculator and target r e lo hi :: real
  defines "acc \<equiv> accepted_at self target r e lo hi"
    and "start \<equiv> \<lparr> best_salary = lo, best_dividends = 0, min_total_tax = PosInf,
                   best_result = None \<rparr>"
    and "cand \<equiv> \<lambda>k res. \<lparr> best_salary = test_salary_at lo hi k,
                           best_dividends = in_dividends (input res),
                           min_total_tax = Fin (total_taxes (summary res)),
                           best_result = Some res \<rparr>"
  shows "\<exists>st. optimize_loop self target r e lo hi [0 ..< n] start = Inr st
     \<and> ((\<forall>i<n. acc i = None) \<longrightarrow> st = start)
     \<and> ((\<exists>i<n. acc i \<noteq> None) \<longrightarrow>
           (\<exists>k<n. \<exists>res. acc k = Some res \<and> st = cand k res
              \<and> least_tax_among acc n k res))"
proof (induction n)
  case 0
  show ?case by simp
next
  case (Suc n)
  from Suc obtain st where
    loop: "optimize_loop self target r e lo hi [0 ..< n] start = Inr st"
    and none: "(\<forall>i<n. acc i = None) \<longrightarrow> st = start"
    and some: "(\<exists>i<n. acc i \<noteq> None) \<longrightarrow>
           (\<exists>k<n. \<exists>res. acc k = Some res \<and> st = cand k res \<and> least_tax_among acc n k res)"
    by blast
  have finish: "\<exists>st. optimize_loop self target r e lo hi [0 ..< Suc n] start = Inr st
     \<and> ((\<forall>i<Suc n. acc i = None) \<longrightarrow> st = start)
     \<and> ((\<exists>i<Suc n. acc i \<noteq> None) \<longrightarrow>
           (\<exists>k<Suc n. \<exists>res. acc k = Some res \<and> st = cand k res \<and> least_tax_among acc (Suc n) k res))"
    if s: "optimize_step self target r e lo hi st n = Inr st'"
      and a: "(\<forall>i<Suc n. acc i = None) \<longrightarrow> st' = start"
      and b: "(\<exists>i<Suc n. acc i \<noteq> None) \<longrightarrow>
           (\<exists>k<Suc n. \<exists>res. acc k = Some res \<and> st' = cand k res \<and> least_tax_among acc (Suc n) k res)"
    for st'
  proof (intro exI [of _ st'] conjI)
    show "optimize_loop self target r e lo hi [0 ..< Suc n] start = Inr st'"
      using loop s by (simp add: optimize_loop_append)
  qed (fact a b)+
  note step = optimize_step_accepted [of self target r e lo hi n st, folded acc_def]
  have "\<exists>st. optimize_loop self target r e lo hi [0 ..< Suc n] start = Inr st
     \<and> ((\<forall>i<Suc n. acc i = None) \<longrightarrow> st = start)
     \<and> ((\<exists>i<Suc n. acc i \<noteq> None) \<longrightarrow>
           (\<exists>k<Suc n. \<exists>res. acc k = Some res \<and> st = cand k res \<and> least_tax_among acc (Suc n) k res))"
  proof (cases "acc n")
    case None
    then have s: "optimize_step self target r e lo hi st n = Inr st"
      using step by simp
    have a: "(\<forall>i<Suc n. acc i = None) \<longrightarrow> st = start"
      using none by simp
    have b: "(\<exists>i<Suc n. acc i \<noteq> None) \<longrightarrow>
           (\<exists>k<Suc n. \<exists>res. acc k = Some res \<and> st = cand k res \<and> least_tax_among acc (Suc n) k res)"
    proof
      assume "\<exists>i<Suc n. acc i \<noteq> None"
      then have "\<exists>i<n. acc i \<noteq> None"
        using None less_Suc_eq by auto
      with some obtain k res where k: "k < n" "acc k = Some res" "st = cand k res"
        and m: "least_tax_among acc n k res"
        by blast
      have m': "least_tax_among acc (Suc n) k res"
        unfolding least_tax_among_def
      proof (intro allI impI)
        fix i ri
        assume i: "i < Suc n" and ai: "acc i = Some ri"
        have "i \<noteq> n" using ai None by auto
        then have "i < n" using i by simp
        then show "total_taxes (summary res) \<le> total_taxes (summary ri)
          \<and> (i < k \<longrightarrow> total_taxes (summary res) < total_taxes (summary ri))"
          using m ai unfolding least_tax_among_def by simp
      qed
      have "k < Suc n" using k(1) by simp
      then show "\<exists>k<Suc n. \<exists>res. acc k = Some res \<and> st = cand k res \<and> least_tax_among acc (Suc n) k res"
        using k(2) k(3) m' by blast
    qed
    show ?thesis by (rule finish [OF s a b])
  next
    case (Some rn)
    then have s: "optimize_step self target r e lo hi st n =
        Inr (if lt_x (total_taxes (summary rn)) (min_total_tax st) then cand n rn else st)"
      using step by (simp add: cand_def)
    have nn: "\<not> (\<forall>i<Suc n. acc i = None)"
      using Some by auto
    show ?thesis
    proof (cases "\<forall>i<n. acc i = None")
      case True
      then have st: "st = start" using none by simp
      have s': "optimize_step self target r e lo hi st n = Inr (cand n rn)"
        using s unfolding st by (simp add: start_def)
      have m: "least_tax_among acc (Suc n) n rn"
        unfolding least_tax_among_def
      proof (intro allI impI)
        fix i ri
        assume i: "i < Suc n" and ai: "acc i = Some ri"
        have "\<not> i < n" using True ai by auto
        then have "i = n" using i by simp
        then have "ri = rn" using ai Some by simp
        then show "total_taxes (summary rn) \<le> total_taxes (summary ri)
          \<and> (i < n \<longrightarrow> total_taxes (summary rn) < total_taxes (summary ri))"
          using \<open>\<not> i < n\<close> by simp
      qed
      have b: "(\<exists>i<Suc n. acc i \<noteq> None) \<longrightarrow>
           (\<exists>k<Suc n. \<exists>res. acc k = Some res \<and> cand n rn = cand k res
              \<and> least_tax_among acc (Suc n) k res)"
        by (intro impI exI [of _ n] exI [of _ rn] conjI) (simp_all add: Some m)
      show ?thesis
        by (rule finish [OF s' _ b]) (simp add: nn)
    next
      case False
      then have "\<exists>i<n. acc i \<noteq> None" by simp
      with some obtain k res where k: "k < n" "acc k = Some res" "st = cand k res"
        and m: "least_tax_among acc n k res"
        by blast
      have mt: "min_total_tax st = Fin (total_taxes (summary res))"
        unfolding k(3) by (simp add: cand_def)
      show ?thesis
      proof (cases "total_taxes (summary rn) < total_taxes (summary res)")
        case True
        then have s': "optimize_step self target r e lo hi st n = Inr (cand n rn)"
          using s mt by simp
        have m': "least_tax_among acc (Suc n) n rn"
          unfolding least_tax_among_def
        proof (intro allI impI)
          fix i ri
          assume i: "i < Suc n" and ai: "acc i = Some ri"
          show "total_taxes (summary rn) \<le> total_taxes (summary ri)
                    \<and> (i < n \<longrightarrow> total_taxes (summary rn) < total_taxes (summary ri))"
          proof (cases "i < n")
            case lt: True
            then have "total_taxes (summary res) \<le> total_taxes (summary ri)"
              using m ai unfolding least_tax_among_def by simp
            then show ?thesis using True by simp
          next
            case nlt: False
            then have "i = n" using i by simp
            then have "ri = rn" using ai Some by simp
            then show ?thesis using nlt by simp
          qed
        qed
        have b: "(\<exists>i<Suc n. acc i \<noteq> None) \<longrightarrow>
           (\<exists>k<Suc n. \<exists>res. acc k = Some res \<and> cand n rn = cand k res
              \<and> least_tax_among acc (Suc n) k res)"
          by (intro impI exI [of _ n] exI [of _ rn] conjI) (simp_all add: Some m')
        show ?thesis
          by (rule finish [OF s' _ b]) (simp add: nn)
      next
        case False
        then have s': "optimize_step self target r e lo hi st n = Inr st"
          using s mt by simp
        have m': "least_tax_among acc (Suc n) k res"
          unfolding least_tax_among_def
        proof (intro allI impI)
          fix i ri
          assume i: "i < Suc n" and ai: "acc i = Some ri"
          show "total_taxes (summary res) \<le> total_taxes (summary ri)
                    \<and> (i < k \<longrightarrow> total_taxes (summary res) < total_taxes (summary ri))"
          proof (cases "i < n")
            case True
            then show ?thesis using m ai unfolding least_tax_among_def by simp
          next
            case nlt: False
            then have "i = n" using i by simp
            then have "ri = rn" using ai Some by simp
            then show ?thesis using False nlt k(1) by simp
          qed
        qed
        have "k < Suc n" using k(1) by simp
        then have b: "(\<exists>i<Suc n. acc i \<noteq> None) \<longrightarrow>
           (\<exists>k<Suc n. \<exists>res. acc k = Some res \<and> st = cand k res \<and> least_tax_among acc (Suc n) k res)"
          by (intro impI exI [of _ k] exI [of _ res] conjI) (simp_all add: k(2) k(3) m')
        show ?thesis
          by (rule finish [OF s' _ b]) (simp add: nn)
      qed
    qed
  qed
  then show ?case .
qed


text \<open>
  The result of \<^verbatim>\<open>optimize_remuneration\<close> in terms of what each of the samples yields:
  the fallback when none is accepted, and otherwise the first accepted result with the
  least total taxes.
\<close>

lemma optimize_remuneration_best:
  fixes self :: calculator and target r e :: real
  assumes lo: "lo = constraints_get cs ''min_salary'' (smic_annual self)"
    and hi: "hi = constraints_get cs ''max_salary'' (r * 0.8)"
  shows "\<exists>res. optimize_remuneration self target r e cs = Inr res
     \<and> res = make_optimization_result (optimal_gross_salary res) (optimal_dividends res)
               (full_calculation res)
     \<and> ((\<forall>i<salary_steps + 1. accepted_at self target r e lo hi i = None) \<longrightarrow>
          optimal_gross_salary res = lo \<and> optimal_dividends res = 0
          \<and> calculate_complete_taxation self lo 0 r e default_vat_rate
               = Inr (full_calculation res))
     \<and> ((\<exists>i<salary_steps + 1. accepted_at self target r e lo hi i \<noteq> None) \<longrightarrow>
          (\<exists>k<salary_steps + 1.
             accepted_at self target r e lo hi k = Some (full_calculation res)
             \<and> optimal_gross_salary res = test_salary_at lo hi k
             \<and> optimal_dividends res = in_dividends (input (full_calculation res))
             \<and> least_tax_among (accepted_at self target r e lo hi) (salary_steps + 1) k
                  (full_calculation res)))"
proof -
  define start where
    "start = \<lparr> best_salary = lo, best_dividends = 0, min_total_tax = PosInf,
               best_result = (None :: taxation_result option) \<rparr>"
  define acc where "acc = accepted_at self target r e lo hi"
  from optimize_loop_best [of self target r e lo hi "salary_steps + 1"] obtain st where
    loop: "optimize_loop self target r e lo hi [0 ..< salary_steps + 1] start = Inr st"
    and none: "(\<forall>i<salary_steps + 1. acc i = None) \<longrightarrow> st = start"
    and some: "(\<exists>i<salary_steps + 1. acc i \<noteq> None) \<longrightarrow>
           (\<exists>k<salary_steps + 1. \<exists>res. acc k = Some res
              \<and> st = \<lparr> best_salary = test_salary_at lo hi k,
                       best_dividends = in_dividends (input res),
                       min_total_tax = Fin (total_taxes (summary res)),
                       best_result = Some res \<rparr>
              \<and> least_tax_among acc (salary_steps + 1) k res)"
    unfolding start_def acc_def by blast
  have opt: "optimize_remuneration self target r e cs =
      (case best_result st of
         None \<Rightarrow>
           (case calculate_complete_taxation self lo 0 r e default_vat_rate of
              Inl err \<Rightarrow> Inl err
            | Inr result \<Rightarrow> Inr (make_optimization_result lo 0 result))
       | Some result \<Rightarrow>
           Inr (make_optimization_result (best_salary st) (best_dividends st) result))"
    unfolding optimize_remuneration_def Let_def
    unfolding lo [symmetric] hi [symmetric]
    unfolding start_def [symmetric]
    using loop by simp
  show ?thesis
  proof (cases "\<forall>i<salary_steps + 1. acc i = None")
    case True
    then have st: "st = start" using none by simp
    obtain result where
      result: "calculate_complete_taxation self lo 0 r e default_vat_rate = Inr result"
      using calculate_complete_taxation_returns by blast
    have o: "optimize_remuneration self target r e cs =
               Inr (make_optimization_result lo 0 result)"
      using opt result unfolding st by (simp add: start_def)
    show ?thesis
      unfolding acc_def [symmetric]
    proof (intro exI [of _ "make_optimization_result lo 0 result"] conjI)
      show "optimize_remuneration self target r e cs =
              Inr (make_optimization_result lo 0 result)"
        by (fact o)
      show "make_optimization_result lo 0 result =
              make_optimization_result
                (optimal_gross_salary (make_optimization_result lo 0 result))
                (optimal_dividends (make_optimization_result lo 0 result))
                (full_calculation (make_optimization_result lo 0 result))"
        by (simp add: make_optimization_result_def)
      show "(\<forall>i<salary_steps + 1. acc i = None) \<longrightarrow>
          optimal_gross_salary (make_optimization_result lo 0 result) = lo
          \<and> optimal_dividends (make_optimization_result lo 0 result) = 0
          \<and> calculate_complete_taxation self lo 0 r e default_vat_rate
               = Inr (full_calculation (make_optimization_result lo 0 result))"
        by (simp add: result make_optimization_result_def)
      show "(\<exists>i<salary_steps + 1. acc i \<noteq> None) \<longrightarrow>
          (\<exists>k<salary_steps + 1.
             acc k = Some (full_calculation (make_optimization_result lo 0 result))
             \<and> optimal_gross_salary (make_optimization_result lo 0 result)
                 = test_salary_at lo hi k
             \<and> optimal_dividends (make_optimization_result lo 0 result)
                 = in_dividends (input (full_calculation (make_optimization_result lo 0 result)))
             \<and> least_tax_among acc (salary_steps + 1) k
                  (full_calculation (make_optimization_result lo 0 result)))"
      proof
        assume "\<exists>i<salary_steps + 1. acc i \<noteq> None"
        then obtain i where "i < salary_steps + 1" "acc i \<noteq> None" by (elim exE conjE)
        then show "\<exists>k<salary_steps + 1.
             acc k = Some (full_calculation (make_optimization_result lo 0 result))
             \<and> optimal_gross_salary (make_optimization_result lo 0 result)
                 = test_salary_at lo hi k
             \<and> optimal_dividends (make_optimization_result lo 0 result)
                 = in_dividends (input (full_calculation (make_optimization_result lo 0 result)))
             \<and> least_tax_among acc (salary_steps + 1) k
                  (full_calculation (make_optimization_result lo 0 result))"
          using True by simp
      qed
    qed
  next
    case False
    then have "\<exists>i<salary_steps + 1. acc i \<noteq> None" by simp
    with some obtain k result where
      k: "k < salary_steps + 1" "acc k = Some result"
      and st: "st = \<lparr> best_salary = test_salary_at lo hi k,
                       best_dividends = in_dividends (input result),
                       min_total_tax = Fin (total_taxes (summary result)),
                       best_result = Some result \<rparr>"
      and least: "least_tax_among acc (salary_steps + 1) k result"
      by blast
    have o: "optimize_remuneration self target r e cs =
               Inr (make_optimization_result (test_salary_at lo hi k)
                      (in_dividends (input result)) result)"
      using opt unfolding st by simp
    define out where
      "out = make_optimization_result (test_salary_at lo hi k) (in_dividends (input result))
               result"
    have sel: "optimal_gross_salary out = test_salary_at lo hi k"
      "optimal_dividends out = in_dividends (input result)"
      "full_calculation out = result"
      by (simp_all add: out_def make_optimization_result_def)
    show ?thesis
      unfolding acc_def [symmetric]
    proof (intro exI [of _ out] conjI)
      show "optimize_remuneration self target r e cs = Inr out"
        using o by (simp add: out_def)
      show "out = make_optimization_result (optimal_gross_salary out) (optimal_dividends out)
                    (full_calculation out)"
        unfolding sel by (simp add: out_def)
      show "(\<forall>i<salary_steps + 1. acc i = None) \<longrightarrow>
          optimal_gross_salary out = lo \<and> optimal_dividends out = 0
          \<and> calculate_complete_taxation self lo 0 r e default_vat_rate
               = Inr (full_calculation out)"
      proof
        assume "\<forall>i<salary_steps + 1. acc i = None"
        with False show "optimal_gross_salary out = lo \<and> optimal_dividends out = 0
          \<and> calculate_complete_taxation self lo 0 r e default_vat_rate
               = Inr (full_calculation out)"
          by (rule notE)
      qed
      show "(\<exists>i<salary_steps + 1. acc i \<noteq> None) \<longrightarrow>
          (\<exists>k<salary_steps + 1.
             acc k = Some (full_calculation out)
             \<and> optimal_gross_salary out = test_salary_at lo hi k
             \<and> optimal_dividends out = in_dividends (input (full_calculation out))
             \<and> least_tax_among acc (salary_steps + 1) k (full_calculation out))"
        unfolding sel
        by (intro impI exI [of _ k] conjI) (use k least in simp_all)
    qed
  qed
qed


section \<open>Evaluating samples with the 2024 rates\<close>

text \<open>One iteration of the binary search, with the net income in closed form.\<close>

lemma french_bisect_step:
  assumes pbt: "pbt = r - e - g * 1.42"
    and it: "calculate_income_tax FrenchTaxCalculator (g * 0.78 * 0.9) 1 = Inr it"
    and av: "av = pbt - calculate_corporate_tax FrenchTaxCalculator pbt"
    and b: "0 \<le> low" "low \<le> high" "high \<le> av"
  shows "bisect_dividends FrenchTaxCalculator g target r e low high =
           (if 100 < high - low
            then if g * 0.78 - it + (low + high) / 2 * 0.7 < target
                 then bisect_dividends FrenchTaxCalculator g target r e ((low + high) / 2) high
                 else bisect_dividends FrenchTaxCalculator g target r e low ((low + high) / 2)
            else Inr (low, high))"
proof -
  obtain res where
    res: "calculate_complete_taxation FrenchTaxCalculator g ((low + high) / 2) r e
            default_vat_rate = Inr res"
    using calculate_complete_taxation_returns by blast
  have m: "0 \<le> (low + high) / 2"
    "(low + high) / 2 \<le> pbt - calculate_corporate_tax FrenchTaxCalculator pbt"
    using b av by simp_all
  have n: "net_income (summary res) = g * 0.78 - it + (low + high) / 2 * 0.7"
    by (rule french_taxation_at(1) [OF res pbt it m])
  show ?thesis
    by (subst bisect_dividends.simps) (simp add: res n Let_def)
qed


text \<open>What a sample yields, from the end points of its binary search.\<close>

lemma french_sample:
  assumes ts: "test_salary_at lo hi i = g"
    and pbt: "pbt = r - e - g * 1.42"
    and it: "calculate_income_tax FrenchTaxCalculator (g * 0.78 * 0.9) 1 = Inr it"
    and av: "av = pbt - calculate_corporate_tax FrenchTaxCalculator pbt"
    and pos: "0 < pbt" "0 < av"
    and bis: "bisect_dividends FrenchTaxCalculator g target r e 0 av = Inr (low, high)"
    and b: "0 \<le> low" "low \<le> high" "high \<le> av"
  shows "\<bar>g * 0.78 - it + (low + high) / 2 * 0.7 - target\<bar> < 1000 \<Longrightarrow>
           \<exists>res. accepted_at FrenchTaxCalculator target r e lo hi i = Some res
             \<and> in_gross_salary (input res) = g
             \<and> in_dividends (input res) = (low + high) / 2
             \<and> net_income (summary res) = g * 0.78 - it + (low + high) / 2 * 0.7
             \<and> total_taxes (summary res) =
                 g * 0.64 + calculate_corporate_tax FrenchTaxCalculator pbt
                   + (low + high) / 2 * 0.3 + it + max 0 (r * 0.2 - e * 0.2)"
    and "\<not> \<bar>g * 0.78 - it + (low + high) / 2 * 0.7 - target\<bar> < 1000 \<Longrightarrow>
           accepted_at FrenchTaxCalculator target r e lo hi i = None"
proof -
  obtain res where
    res: "calculate_complete_taxation FrenchTaxCalculator g ((low + high) / 2) r e
            default_vat_rate = Inr res"
    using calculate_complete_taxation_returns by blast
  have m: "0 \<le> (low + high) / 2"
    "(low + high) / 2 \<le> pbt - calculate_corporate_tax FrenchTaxCalculator pbt"
    using b av by simp_all
  note t = french_taxation_at [OF res pbt it m]
  have tc: "total_cost_to_company (calculate_social_charges_on_salary FrenchTaxCalculator g)
              = g * 1.42"
    by (simp add: calculate_social_charges_on_salary_def FrenchTaxCalculator_def)
  have acc: "accepted_at FrenchTaxCalculator target r e lo hi i =
      (if \<bar>net_income (summary res) - target\<bar> < 1000 then Some res else None)"
    unfolding accepted_at_def sample_outcome_def optimize_step_def Let_def ts tc
    unfolding pbt [symmetric]
    unfolding av [symmetric]
    using pos bis res by simp
  have ig: "in_gross_salary (input res) = g"
    using calculate_complete_taxation_input [OF res] by simp
  show "\<exists>res. accepted_at FrenchTaxCalculator target r e lo hi i = Some res
             \<and> in_gross_salary (input res) = g
             \<and> in_dividends (input res) = (low + high) / 2
             \<and> net_income (summary res) = g * 0.78 - it + (low + high) / 2 * 0.7
             \<and> total_taxes (summary res) =
                 g * 0.64 + calculate_corporate_tax FrenchTaxCalculator pbt
                   + (low + high) / 2 * 0.3 + it + max 0 (r * 0.2 - e * 0.2)"
    if "\<bar>g * 0.78 - it + (low + high) / 2 * 0.7 - target\<bar> < 1000"
    using that acc t ig by (intro exI [of _ res]) simp
  show "accepted_at FrenchTaxCalculator target r e lo hi i = None"
    if "\<not> \<bar>g * 0.78 - it + (low + high) / 2 * 0.7 - target\<bar> < 1000"
    using that acc t(1) by simp
qed




































text \<open>The first sample of the call with a minimum salary of 30000 above a maximum of 20000.\<close>

lemma inverted_example_sample_0:
  "\<exists>res. accepted_at FrenchTaxCalculator 22000 50000 7320 (30000) (20000) 0 = Some res
     \<and> in_gross_salary (input res) = 30000
     \<and> in_dividends (input res) = 34
     \<and> net_income (summary res) = 1117477 / 50
     \<and> total_taxes (summary res) = 1441623 / 50"
proof -
  have ts: "test_salary_at (30000) (20000) 0 = 30000"
    by (simp add: test_salary_at_def salary_steps_def)
  have pbt: "(80 :: real) = 50000 - 7320 - 30000 * 1.42"
    by simp
  have it: "calculate_income_tax FrenchTaxCalculator (30000 * 0.78 * 0.9) 1 = Inr (53713 / 50)"
    by (simp add: calculate_income_tax_default_parts FrenchTaxCalculator_def)
  have av: "(68 :: real) = 80 - calculate_corporate_tax FrenchTaxCalculator (80)"
    by (simp add: corporate_tax_formula)
  have bis: "bisect_dividends FrenchTaxCalculator (30000) 22000 50000 7320 0 (68) = Inr (0, 68)"
    by (simp add: french_bisect_step [OF pbt it av])
  note s = french_sample [OF ts pbt it av _ _ bis]
  have "\<exists>res. accepted_at FrenchTaxCalculator 22000 50000 7320 (30000) (20000) 0 = Some res
     \<and> in_gross_salary (input res) = 30000
     \<and> in_dividends (input res) = (0 + 68) / 2
     \<and> net_income (summary res) = 30000 * 0.78 - 53713 / 50 + (0 + 68) / 2 * 0.7
     \<and> total_taxes (summary res) =
          30000 * 0.64 + calculate_corporate_tax FrenchTaxCalculator (80)
            + (0 + 68) / 2 * 0.3 + 53713 / 50 + max 0 (50000 * 0.2 - 7320 * 0.2)"
    by (rule s(1)) simp_all
  then show ?thesis
    by (simp add: corporate_tax_formula)
qed

section \<open>Claims about the optimizer\<close>



text \<open>
  C9, as amended. When the minimum salary of the constraints exceeds the maximum, the
  call raises no error and its 21 samples, which start at the minimum salary and run
  downward, are evaluated like any others. It returns the fallback (minimum salary,
  dividends 0) when none of the 21 samples is accepted; when one is, it returns the first
  accepted sample with the least total taxes, with positive dividends and a net income
  within 1000 of the target.
\<close>

theorem inverted_constraints:
  assumes "constraints_get cs ''max_salary'' (r * 0.8)
             < constraints_get cs ''min_salary'' (smic_annual self)"
  shows "\<exists>res. optimize_remuneration self target r e cs = Inr res
     \<and> test_salary_at (constraints_get cs ''min_salary'' (smic_annual self))
           (constraints_get cs ''max_salary'' (r * 0.8)) 0
         = constraints_get cs ''min_salary'' (smic_annual self)
     \<and> (\<forall>i<20. test_salary_at (constraints_get cs ''min_salary'' (smic_annual self))
                    (constraints_get cs ''max_salary'' (r * 0.8)) (Suc i)
                < test_salary_at (constraints_get cs ''min_salary'' (smic_annual self))
                    (constraints_get cs ''max_salary'' (r * 0.8)) i)
     \<and> ((\<forall>i<21. accepted_at self target r e
                     (constraints_get cs ''min_salary'' (smic_annual self))
                     (constraints_get cs ''max_salary'' (r * 0.8)) i = None) \<longrightarrow>
          optimal_gross_salary res = constraints_get cs ''min_salary'' (smic_annual self)
          \<and> optimal_dividends res = 0
          \<and> calculate_complete_taxation self
                (constraints_get cs ''min_salary'' (smic_annual self)) 0 r e default_vat_rate
              = Inr (full_calculation res))
     \<and> ((\<exists>i<21. accepted_at self target r e
                     (constraints_get cs ''min_salary'' (smic_annual self))
                     (constraints_get cs ''max_salary'' (r * 0.8)) i \<noteq> None) \<longrightarrow>
          (\<exists>k<21.
             accepted_at self target r e
                 (constraints_get cs ''min_salary'' (smic_annual self))
                 (constraints_get cs ''max_salary'' (r * 0.8)) k
               = Some (full_calculation res)
             \<and> optimal_gross_salary res
                 = test_salary_at (constraints_get cs ''min_salary'' (smic_annual self))
                     (constraints_get cs ''max_salary'' (r * 0.8)) k
             \<and> calculate_complete_taxation self (optimal_gross_salary res)
                   (optimal_dividends res) r e default_vat_rate = Inr (full_calculation res)
             \<and> 0 < optimal_dividends res
             \<and> \<bar>net_income_achieved res - target\<bar> < 1000
             \<and> least_tax_among
                   (accepted_at self target r e
                      (constraints_get cs ''min_salary'' (smic_annual self))
                      (constraints_get cs ''max_salary'' (r * 0.8)))
                   21 k (full_calculation res)))"
proof -
  define lo where "lo = constraints_get cs ''min_salary'' (smic_annual self)"
  define hi where "hi = constraints_get cs ''max_salary'' (r * 0.8)"
  define acc where "acc = accepted_at self target r e lo hi"
  have lt: "hi < lo" using assms by (simp add: lo_def hi_def)
  have n: "salary_steps + 1 = 21" by (simp add: salary_steps_def)
  from optimize_remuneration_best [OF lo_def hi_def, of target e]
  obtain res where
    o: "optimize_remuneration self target r e cs = Inr res"
    and mk: "res = make_optimization_result (optimal_gross_salary res) (optimal_dividends res)
               (full_calculation res)"
    and none: "(\<forall>i<21. acc i = None) \<longrightarrow>
          optimal_gross_salary res = lo \<and> optimal_dividends res = 0
          \<and> calculate_complete_taxation self lo 0 r e default_vat_rate
               = Inr (full_calculation res)"
    and some: "(\<exists>i<21. acc i \<noteq> None) \<longrightarrow>
          (\<exists>k<21. acc k = Some (full_calculation res)
             \<and> optimal_gross_salary res = test_salary_at lo hi k
             \<and> optimal_dividends res = in_dividends (input (full_calculation res))
             \<and> least_tax_among acc 21 k (full_calculation res))"
    unfolding n acc_def by blast
  have nia: "net_income_achieved res = net_income (summary (full_calculation res))"
    by (subst mk) (simp add: make_optimization_result_def)
  have some': "(\<exists>i<21. acc i \<noteq> None) \<longrightarrow>
          (\<exists>k<21. acc k = Some (full_calculation res)
             \<and> optimal_gross_salary res = test_salary_at lo hi k
             \<and> calculate_complete_taxation self (optimal_gross_salary res)
                   (optimal_dividends res) r e default_vat_rate = Inr (full_calculation res)
             \<and> 0 < optimal_dividends res
             \<and> \<bar>net_income_achieved res - target\<bar> < 1000
             \<and> least_tax_among acc 21 k (full_calculation res))"
  proof
    assume "\<exists>i<21. acc i \<noteq> None"
    with some obtain k where
      k: "k < 21" "acc k = Some (full_calculation res)"
      and sal: "optimal_gross_salary res = test_salary_at lo hi k"
      and dv: "optimal_dividends res = in_dividends (input (full_calculation res))"
      and least: "least_tax_among acc 21 k (full_calculation res)"
      by blast
    from optimize_step_accepted [of self target r e lo hi k undefined] k(2)
    have f: "0 < in_dividends (input (full_calculation res))"
      "calculate_complete_taxation self (test_salary_at lo hi k)
         (in_dividends (input (full_calculation res))) r e default_vat_rate
         = Inr (full_calculation res)"
      "\<bar>net_income (summary (full_calculation res)) - target\<bar> < 1000"
      unfolding acc_def by simp_all
    show "\<exists>k<21. acc k = Some (full_calculation res)
             \<and> optimal_gross_salary res = test_salary_at lo hi k
             \<and> calculate_complete_taxation self (optimal_gross_salary res)
                   (optimal_dividends res) r e default_vat_rate = Inr (full_calculation res)
             \<and> 0 < optimal_dividends res
             \<and> \<bar>net_income_achieved res - target\<bar> < 1000
             \<and> least_tax_among acc 21 k (full_calculation res)"
      unfolding nia dv sal
      by (intro exI [of _ k] conjI) (fact k f least refl)+
  qed
  have dec: "\<forall>i<20. test_salary_at lo hi (Suc i) < test_salary_at lo hi i"
    using test_salary_at_decreasing [OF lt] by blast
  show ?thesis
    unfolding lo_def [symmetric] hi_def [symmetric] acc_def [symmetric]
    by (intro exI [of _ res] conjI) (fact o test_salary_at_ends(1) dec none some')+
qed

theorem inverted_constraints_witness:
  "(20000::real) < 30000
   \<and> (\<exists>res. optimize_remuneration FrenchTaxCalculator 22000 50000 7320
              (Some [''min_salary'' \<mapsto> 30000, ''max_salary'' \<mapsto> 20000]) = Inr res
        \<and> 0 < optimal_dividends res
        \<and> \<bar>net_income_achieved res - 22000\<bar> < 1000)"
proof -
  have a: "\<exists>i<21. accepted_at FrenchTaxCalculator 22000 50000 7320 30000 20000 i \<noteq> None"
    using inverted_example_sample_0 by (intro exI [of _ 0]) auto
  have h: "(20000::real) < 30000" by simp
  show ?thesis
    using inverted_constraints
      [of "Some [''min_salary'' \<mapsto> 30000, ''max_salary'' \<mapsto> 20000]" 50000
          FrenchTaxCalculator 22000 7320]
      a h
    unfolding inverted_example_constraints
    by blast
qed

text \<open>
  C9 as stated fails: with a minimum salary of 30000 above a maximum of 20000, a target of
  22000, revenue 50000 and expenses 7320, the first sample (salary 30000, dividends 34,
  net income 22349.54) is accepted, so the call does not return the fallback and its
  dividends are not 0.
\<close>

theorem inverted_constraints_counterexample:
  "constraints_get (Some [''min_salary'' \<mapsto> 30000, ''max_salary'' \<mapsto> 20000]) ''max_salary''
       (50000 * 0.8)
     < constraints_get (Some [''min_salary'' \<mapsto> 30000, ''max_salary'' \<mapsto> 20000]) ''min_salary''
         (smic_annual FrenchTaxCalculator)
   \<and> \<not> isl (optimize_remuneration FrenchTaxCalculator 22000 50000 7320
              (Some [''min_salary'' \<mapsto> 30000, ''max_salary'' \<mapsto> 20000]))
   \<and> optimal_dividends (projr (optimize_remuneration FrenchTaxCalculator 22000 50000 7320
              (Some [''min_salary'' \<mapsto> 30000, ''max_salary'' \<mapsto> 20000]))) \<noteq> 0"
proof -
  define cs :: "(string \<rightharpoonup> real) option" where
    "cs = Some [''min_salary'' \<mapsto> 30000, ''max_salary'' \<mapsto> 20000]"
  have lo: "30000 = constraints_get cs ''min_salary'' (smic_annual FrenchTaxCalculator)"
    and hi: "20000 = constraints_get cs ''max_salary'' (50000 * 0.8)"
    by (simp_all add: cs_def inverted_example_constraints)
  have ts: "30000 = test_salary_at 30000 20000 0"
    by (simp add: test_salary_at_def)
  have pbt: "80 = 50000 - 7320
      - total_cost_to_company (calculate_social_charges_on_salary FrenchTaxCalculator 30000)"
    by (simp add: calculate_social_charges_on_salary_def FrenchTaxCalculator_def)
  have av: "68 = 80 - calculate_corporate_tax FrenchTaxCalculator 80"
    by (simp add: corporate_tax_formula)
  obtain res where
    res: "calculate_complete_taxation FrenchTaxCalculator 30000 (68 / 2) 50000 7320
            default_vat_rate = Inr res"
    using calculate_complete_taxation_returns by blast
  note f = calculate_complete_taxation_fields [OF res]
  note g = calculate_complete_taxation_net_income [OF res]
  have sal: "net_salary (salary res) = 23400"
    using f(1) by (simp add: calculate_social_charges_on_salary_def FrenchTaxCalculator_def)
  have tax: "tax_on_salary (income_tax res) = 1074.26"
    using g(2) unfolding sal
    by (simp add: calculate_income_tax_default_parts FrenchTaxCalculator_def)
  have pat: "profit_after_tax (corporate res) = 68"
    using f(1-4)
    by (simp add: calculate_social_charges_on_salary_def corporate_tax_formula)
      (simp add: FrenchTaxCalculator_def)
  have dv: "net_dividends (dividends res) = 23.8"
    using net_dividends_taxation [OF f(5)] unfolding pat
    by (simp add: FrenchTaxCalculator_def)
  have net: "net_income (summary res) = 22349.54"
    using g(1) sal tax dv by simp
  have close: "\<bar>net_income (summary res) - 22000\<bar> < 1000"
    unfolding net by simp
  have step: "optimize_step FrenchTaxCalculator 22000 50000 7320 30000 20000
        \<lparr> best_salary = 30000, best_dividends = 0, min_total_tax = PosInf,
          best_result = None \<rparr> 0 =
        Inr \<lparr> best_salary = 30000, best_dividends = 68 / 2,
              min_total_tax = Fin (total_taxes (summary res)),
              best_result = Some res \<rparr>"
    by (rule optimize_step_accepts [OF ts pbt _ av _ _ res close]) simp_all
  from optimize_remuneration_first_accepted [OF lo hi step] obtain out where
    "optimize_remuneration FrenchTaxCalculator 22000 50000 7320 cs = Inr out"
    "0 < optimal_dividends out"
    by auto
  then show ?thesis
    unfolding cs_def inverted_example_constraints by simp
qed


text \<open>
  C10. \<^verbatim>\<open>optimize_remuneration\<close> has no VAT parameter, and all its calls of
  \<^verbatim>\<open>calculate_complete_taxation\<close> pass four arguments: for every input the VAT part of
  the returned full calculation is \<^verbatim>\<open>calculate_vat\<close> at the default rate 0.20.
\<close>

theorem optimizer_default_vat:
  "\<exists>res. optimize_remuneration self target r e cs = Inr res
     \<and> vat (full_calculation res) = calculate_vat self r e default_vat_rate
     \<and> vat_rate (vat (full_calculation res)) = 0.20
     \<and> vat_to_pay (vat (full_calculation res)) = max 0 (r * 0.20 - e * 0.20)"
proof -
  from optimize_remuneration_cases [OF refl refl] obtain res where
    o: "optimize_remuneration self target r e cs = Inr res"
    and c: "calculate_complete_taxation self (optimal_gross_salary res) (optimal_dividends res)
               r e default_vat_rate = Inr (full_calculation res)"
    by blast
  have v: "vat (full_calculation res) = calculate_vat self r e default_vat_rate"
    using calculate_complete_taxation_fields(6) [OF c] .
  show ?thesis
    using o v by (simp add: calculate_vat_def default_vat_rate_def Let_def)
qed

end
